theory Spec2Isabelle
  imports Complex_Main "HOL-Library.AList" "HOL-Library.Multiset" "HOL-Library.Product_Lexorder"
    "HOL-Library.Sublist"
begin

section \<open>The event manager of \<^verbatim>\<open>src/event_manager.py\<close>\<close>

text \<open>
  The program keeps a list of \<^verbatim>\<open>Event\<close> objects in memory, reads it from a JSON file
  when the manager is built and rewrites the file after every change. This theory embeds
  the classes \<^verbatim>\<open>Event\<close> and \<^verbatim>\<open>EventManager\<close> function by function.

  Conventions of the embedding:
  \<^item> a Python \<^verbatim>\<open>str\<close> is a \<open>string\<close>; one \<open>char\<close> stands for one character, the
    one whose code point is the value of the \<open>char\<close> (0 to 255), so texts with other
    characters are outside the embedding;
  \<^item> an exception is a value of type \<open>error\<close>; a method that can raise returns
    \<open>error + 'a\<close>, a method that also changes something returns the new state as well;
  \<^item> the view (module \<^verbatim>\<open>base_view\<close>, not part of the sources) is a script of answers
    the user will type (\<open>inputs\<close>) and a log of the calls made on it (\<open>outputs\<close>);
    \<^verbatim>\<open>get_input\<close> on an exhausted script raises \<^verbatim>\<open>EOFError\<close>, as \<^verbatim>\<open>input()\<close> does at
    the end of the input;
  \<^item> the standard library (\<^verbatim>\<open>datetime\<close>, \<^verbatim>\<open>json\<close>, \<^verbatim>\<open>open\<close>) is modelled from its
    documented behaviour, as far as the program uses it.
\<close>

datatype error =
  FileNotFoundError | PermissionError | JSONDecodeError | ValueError | TypeError | EOFError

subsection \<open>\<^verbatim>\<open>datetime\<close>: values, subtraction, comparison\<close>

text \<open>
  A naive \<^verbatim>\<open>datetime\<close> object. Python only builds objects whose fields are in range
  (\<open>valid_datetime\<close>); the constructor raises \<^verbatim>\<open>ValueError\<close> otherwise.
\<close>

record datetime =
  year :: nat
  month :: nat
  day :: nat
  hour :: nat
  minute :: nat
  second :: nat
  microsecond :: nat

definition is_leap :: "nat \<Rightarrow> bool" where
  "is_leap y = (y mod 4 = 0 \<and> (y mod 100 \<noteq> 0 \<or> y mod 400 = 0))"

definition days_in_month :: "nat \<Rightarrow> nat \<Rightarrow> nat" where
  "days_in_month y m =
     (if m = 2 \<and> is_leap y then 29
      else [31, 28, 31, 30, 31, 30, 31, 31, 30, 31, 30, 31] ! (m - 1))"

definition valid_datetime :: "datetime \<Rightarrow> bool" where
  "valid_datetime dt =
     (1 \<le> year dt \<and> year dt \<le> 9999 \<and> 1 \<le> month dt \<and> month dt \<le> 12
      \<and> 1 \<le> day dt \<and> day dt \<le> days_in_month (year dt) (month dt)
      \<and> hour dt < 24 \<and> minute dt < 60 \<and> second dt < 60 \<and> microsecond dt < 1000000)"

text \<open>The constructor \<^verbatim>\<open>datetime(y, m, d, hh, mm, ss, us)\<close> with its range checks.\<close>

definition datetime_new ::
  "nat \<Rightarrow> nat \<Rightarrow> nat \<Rightarrow> nat \<Rightarrow> nat \<Rightarrow> nat \<Rightarrow> nat \<Rightarrow> error + datetime" where
  "datetime_new y m d hh mm ss us =
     (let dt = \<lparr>year = y, month = m, day = d, hour = hh, minute = mm, second = ss,
                 microsecond = us\<rparr>
      in if valid_datetime dt then Inr dt else Inl ValueError)"

text \<open>
  \<^verbatim>\<open>datetime.toordinal\<close>: the day number in the proleptic Gregorian calendar, computed
  as CPython's \<^verbatim>\<open>_ymd2ord\<close> does.
\<close>

definition days_before_year :: "nat \<Rightarrow> int" where
  "days_before_year y =
     (let y1 = int y - 1 in y1 * 365 + y1 div 4 - y1 div 100 + y1 div 400)"

definition days_before_month :: "nat \<Rightarrow> nat \<Rightarrow> int" where
  "days_before_month y m =
     [0, 31, 59, 90, 120, 151, 181, 212, 243, 273, 304, 334] ! (m - 1)
       + (if 2 < m \<and> is_leap y then 1 else 0)"

definition toordinal :: "datetime \<Rightarrow> int" where
  "toordinal dt = days_before_year (year dt) + days_before_month (year dt) (month dt) + int (day dt)"

text \<open>
  A \<^verbatim>\<open>timedelta\<close> is kept as its total number of microseconds: Python normalises a
  \<^verbatim>\<open>timedelta\<close> to (days, seconds, microseconds) and compares these triples, which is
  the order of the totals.
\<close>

type_synonym timedelta = int

definition timedelta_days :: "int \<Rightarrow> timedelta" where
  "timedelta_days n = n * 86400000000"

definition datetime_sub :: "datetime \<Rightarrow> datetime \<Rightarrow> timedelta" where
  "datetime_sub a b =
     (toordinal a - toordinal b) * 86400000000
       + ((int (hour a) * 3600 + int (minute a) * 60 + int (second a))
          - (int (hour b) * 3600 + int (minute b) * 60 + int (second b))) * 1000000
       + (int (microsecond a) - int (microsecond b))"

text \<open>Two datetimes compare as the tuples of their fields, in lexicographic order.\<close>

definition datetime_key :: "datetime \<Rightarrow> nat \<times> nat \<times> nat \<times> nat \<times> nat \<times> nat \<times> nat" where
  "datetime_key dt =
     (year dt, month dt, day dt, hour dt, minute dt, second dt, microsecond dt)"

subsection \<open>The date codec: \<^verbatim>\<open>strftime\<close> and \<^verbatim>\<open>strptime\<close> with \<^verbatim>\<open>'%Y-%m-%d %H:%M'\<close>\<close>

definition digit_char :: "nat \<Rightarrow> char" where
  "digit_char n = ''0123456789'' ! n"

definition pad2 :: "nat \<Rightarrow> string" where
  "pad2 n = [digit_char (n div 10 mod 10), digit_char (n mod 10)]"

definition pad4 :: "nat \<Rightarrow> string" where
  "pad4 n = [digit_char (n div 1000 mod 10), digit_char (n div 100 mod 10),
             digit_char (n div 10 mod 10), digit_char (n mod 10)]"

text \<open>The decimal numeral of a number, without leading zeros.\<close>

function decimal :: "nat \<Rightarrow> string" where
  "decimal n =
     (if n < 10 then [digit_char n] else decimal (n div 10) @ [digit_char (n mod 10)])"
  by pat_completeness auto
termination
  by (relation "measure id") auto

declare decimal.simps [simp del]

text \<open>
  \<^verbatim>\<open>dt.strftime('%Y-%m-%d %H:%M')\<close>. CPython (3.11) hands the format to the C library;
  the GNU C library writes \<^verbatim>\<open>%Y\<close> as the decimal numeral of the year with no leading
  zeros: the year 999 is written \<^verbatim>\<open>999\<close>, not \<^verbatim>\<open>0999\<close>. Month, day, hour and
  minute are written with two digits; seconds and microseconds are not written.
\<close>

definition strftime :: "datetime \<Rightarrow> string" where
  "strftime dt =
     decimal (year dt) @ ''-'' @ pad2 (month dt) @ ''-'' @ pad2 (day dt) @ '' ''
       @ pad2 (hour dt) @ '':'' @ pad2 (minute dt)"

text \<open>
  \<^verbatim>\<open>datetime.strptime(s, '%Y-%m-%d %H:%M')\<close>. CPython turns the format into the regular
  expression
  \<^verbatim>\<open>(?P<Y>\d\d\d\d)-(?P<m>1[0-2]|0[1-9]|[1-9])-(?P<d>3[0-1]|[1-2]\d|0[1-9]|[1-9]| [1-9])\s+(?P<H>2[0-3]|[0-1]\d|\d):(?P<M>[0-5]\d|\d)\<close>,
  matches it at the start of the string, raises \<^verbatim>\<open>ValueError\<close> when it does not match or
  when text remains after the match, and builds the datetime from the groups. Each piece
  of the expression is a function from the text to the list of its possible matches (the
  value read and the text left), in the order in which a backtracking matcher tries
  them; the match found is the first of the list. The pattern is a text pattern, so
  \<^verbatim>\<open>\d\<close> and \<^verbatim>\<open>\s\<close> are the Unicode classes: among the characters of the embedding the
  decimal digits are \<^verbatim>\<open>0\<close> to \<^verbatim>\<open>9\<close>, and the white space is the code points 9 to 13, 28
  to 32, 133 (next line) and 160 (no-break space).
\<close>

definition digit_of :: "char \<Rightarrow> nat option" where
  "digit_of c = (if c \<in> set ''0123456789'' then Some (of_char c - 48) else None)"

definition digit_in :: "nat \<Rightarrow> nat \<Rightarrow> char \<Rightarrow> bool" where
  "digit_in lo hi c = (case digit_of c of None \<Rightarrow> False | Some v \<Rightarrow> lo \<le> v \<and> v \<le> hi)"

definition digit_val :: "char \<Rightarrow> nat" where
  "digit_val c = (case digit_of c of None \<Rightarrow> 0 | Some v \<Rightarrow> v)"

definition is_space :: "char \<Rightarrow> bool" where
  "is_space c =
     (let n = (of_char c :: nat)
      in (9 \<le> n \<and> n \<le> 13) \<or> (28 \<le> n \<and> n \<le> 32) \<or> n = 133 \<or> n = 160)"

fun two_digits :: "(char \<Rightarrow> bool) \<Rightarrow> (char \<Rightarrow> bool) \<Rightarrow> string \<Rightarrow> (nat \<times> string) list" where
  "two_digits p q (a # b # r) =
     (if p a \<and> q b then [(10 * digit_val a + digit_val b, r)] else [])"
| "two_digits p q _ = []"

fun one_digit :: "(char \<Rightarrow> bool) \<Rightarrow> string \<Rightarrow> (nat \<times> string) list" where
  "one_digit p (a # r) = (if p a then [(digit_val a, r)] else [])"
| "one_digit p [] = []"

fun re_lit :: "char \<Rightarrow> string \<Rightarrow> string list" where
  "re_lit c (a # r) = (if a = c then [r] else [])"
| "re_lit c [] = []"

text \<open>\<^verbatim>\<open>\s+\<close> is greedy: the longest run of white space first, then the shorter ones.\<close>

fun re_spaces :: "string \<Rightarrow> string list" where
  "re_spaces (c # r) = (if is_space c then re_spaces r @ [r] else [])"
| "re_spaces [] = []"

fun re_Y :: "string \<Rightarrow> (nat \<times> string) list" where
  "re_Y (a # b # c # d # r) =
     (if digit_in 0 9 a \<and> digit_in 0 9 b \<and> digit_in 0 9 c \<and> digit_in 0 9 d
      then [(1000 * digit_val a + 100 * digit_val b + 10 * digit_val c + digit_val d, r)]
      else [])"
| "re_Y _ = []"

definition re_m :: "string \<Rightarrow> (nat \<times> string) list" where
  "re_m s = two_digits (digit_in 1 1) (digit_in 0 2) s
          @ two_digits (digit_in 0 0) (digit_in 1 9) s
          @ one_digit (digit_in 1 9) s"

definition re_d :: "string \<Rightarrow> (nat \<times> string) list" where
  "re_d s = two_digits (digit_in 3 3) (digit_in 0 1) s
          @ two_digits (digit_in 1 2) (digit_in 0 9) s
          @ two_digits (digit_in 0 0) (digit_in 1 9) s
          @ one_digit (digit_in 1 9) s
          @ concat (map (one_digit (digit_in 1 9)) (re_lit CHR '' '' s))"

definition re_H :: "string \<Rightarrow> (nat \<times> string) list" where
  "re_H s = two_digits (digit_in 2 2) (digit_in 0 3) s
          @ two_digits (digit_in 0 1) (digit_in 0 9) s
          @ one_digit (digit_in 0 9) s"

definition re_M :: "string \<Rightarrow> (nat \<times> string) list" where
  "re_M s = two_digits (digit_in 0 5) (digit_in 0 9) s
          @ one_digit (digit_in 0 9) s"

definition regex_match :: "string \<Rightarrow> (nat \<times> nat \<times> nat \<times> nat \<times> nat \<times> string) list" where
  "regex_match s =
     [(Y, m, d, H, M, r9).
        (Y, r1) \<leftarrow> re_Y s, r2 \<leftarrow> re_lit CHR ''-'' r1,
        (m, r3) \<leftarrow> re_m r2, r4 \<leftarrow> re_lit CHR ''-'' r3,
        (d, r5) \<leftarrow> re_d r4, r6 \<leftarrow> re_spaces r5,
        (H, r7) \<leftarrow> re_H r6, r8 \<leftarrow> re_lit CHR '':'' r7,
        (M, r9) \<leftarrow> re_M r8]"

definition strptime :: "string \<Rightarrow> error + datetime" where
  "strptime s =
     (case regex_match s of
        [] \<Rightarrow> Inl ValueError
      | (Y, m, d, H, M, rest) # _ \<Rightarrow>
          if rest \<noteq> [] then Inl ValueError else datetime_new Y m d H M 0 0)"

subsection \<open>Python values and JSON documents\<close>

text \<open>
  The fields \<^verbatim>\<open>title\<close> and \<^verbatim>\<open>tags\<close> of an event hold whatever the program puts
  there: text typed by the user, or any value that \<^verbatim>\<open>json.load\<close> found in the file. The
  type \<open>pyval\<close> has the values that can occur. A dictionary is the list of its items in
  insertion order (its keys are texts: they come from JSON objects).
\<close>

datatype pynum = PyInt int | PyFloat rat | NaN | Infinity | NegInfinity

datatype pyval =
  PNone
| PBool bool
| PNumber pynum
| PStr string
| PList "pyval list"
| PDict "(string \<times> pyval) list"
| PDatetime datetime

text \<open>
  A JSON document as \<^verbatim>\<open>json.load\<close> reads it and \<^verbatim>\<open>json.dump\<close> writes it. An object is
  the list of its members as written (a key may be repeated in the text of a file).
\<close>

datatype json =
  JNull
| JBool bool
| JNumber pynum
| JString string
| JArray "json list"
| JObject "(string \<times> json) list"

text \<open>The truth value of a Python value, as \<^verbatim>\<open>or\<close> and \<^verbatim>\<open>if\<close> test it.\<close>

fun truthy :: "pyval \<Rightarrow> bool" where
  "truthy PNone = False"
| "truthy (PBool b) = b"
| "truthy (PNumber (PyInt i)) = (i \<noteq> 0)"
| "truthy (PNumber (PyFloat q)) = (q \<noteq> 0)"
| "truthy (PNumber _) = True"
| "truthy (PStr s) = (s \<noteq> [])"
| "truthy (PList xs) = (xs \<noteq> [])"
| "truthy (PDict kvs) = (kvs \<noteq> [])"
| "truthy (PDatetime _) = True"

text \<open>\<^verbatim>\<open>for x in v\<close>: the items a value yields, or \<^verbatim>\<open>TypeError\<close> when it is not iterable.\<close>

fun py_iter :: "pyval \<Rightarrow> error + pyval list" where
  "py_iter (PList xs) = Inr xs"
| "py_iter (PDict kvs) = Inr (map (\<lambda>kv. PStr (fst kv)) kvs)"
| "py_iter (PStr s) = Inr (map (\<lambda>c. PStr [c]) s)"
| "py_iter _ = Inl TypeError"

text \<open>
  \<^verbatim>\<open>query in v\<close> for a text \<^verbatim>\<open>query\<close>: a substring test on a text, a membership test on a
  list, a key test on a dictionary, \<^verbatim>\<open>TypeError\<close> on the other values.
\<close>

fun py_contains :: "string \<Rightarrow> pyval \<Rightarrow> error + bool" where
  "py_contains q (PStr s) = Inr (sublist q s)"
| "py_contains q (PList xs) = Inr (PStr q \<in> set xs)"
| "py_contains q (PDict kvs) = Inr (q \<in> set (map fst kvs))"
| "py_contains q _ = Inl TypeError"

text \<open>\<^verbatim>\<open>s.split(sep)\<close> with a separator of one character.\<close>

fun str_split :: "char \<Rightarrow> string \<Rightarrow> string list" where
  "str_split sep [] = [[]]"
| "str_split sep (c # cs) =
     (if c = sep then [] # str_split sep cs
      else (case str_split sep cs of
              p # ps \<Rightarrow> (c # p) # ps
            | [] \<Rightarrow> [[c]]))"

text \<open>\<^verbatim>\<open>dict(pairs)\<close>: a repeated key keeps its first position and takes the last value.\<close>

definition dict_of_pairs :: "(string \<times> pyval) list \<Rightarrow> (string \<times> pyval) list" where
  "dict_of_pairs ps = foldl (\<lambda>d kv. AList.update (fst kv) (snd kv) d) [] ps"

text \<open>\<^verbatim>\<open>datetime.strptime(v, fmt)\<close> on a value: the first argument must be a text.\<close>

fun py_strptime :: "pyval \<Rightarrow> error + datetime" where
  "py_strptime (PStr s) = strptime s"
| "py_strptime _ = Inl TypeError"

text \<open>
  \<^verbatim>\<open>EventManager.event_decoder\<close>, the \<^verbatim>\<open>object_hook\<close>: a decoded object with a key
  \<^verbatim>\<open>date_time\<close> gets the parsed datetime in place of the text.
\<close>

definition event_decoder :: "(string \<times> pyval) list \<Rightarrow> error + pyval" where
  "event_decoder obj =
     (case map_of obj ''date_time'' of
        None \<Rightarrow> Inr (PDict obj)
      | Some v \<Rightarrow>
          (case py_strptime v of
             Inl e \<Rightarrow> Inl e
           | Inr dt \<Rightarrow> Inr (PDict (AList.update ''date_time'' (PDatetime dt) obj))))"

text \<open>
  \<^verbatim>\<open>json.load(file, object_hook=self.event_decoder)\<close> on a document: values are decoded
  from left to right, the hook is called on every object once its members are decoded,
  and the first exception ends the decoding.
\<close>

fun decode :: "json \<Rightarrow> error + pyval"
  and decode_list :: "json list \<Rightarrow> error + pyval list"
  and decode_members :: "(string \<times> json) list \<Rightarrow> error + (string \<times> pyval) list" where
  "decode JNull = Inr PNone"
| "decode (JBool b) = Inr (PBool b)"
| "decode (JNumber n) = Inr (PNumber n)"
| "decode (JString s) = Inr (PStr s)"
| "decode (JArray xs) =
     (case decode_list xs of Inl e \<Rightarrow> Inl e | Inr vs \<Rightarrow> Inr (PList vs))"
| "decode (JObject kvs) =
     (case decode_members kvs of Inl e \<Rightarrow> Inl e | Inr ps \<Rightarrow> event_decoder (dict_of_pairs ps))"
| "decode_list [] = Inr []"
| "decode_list (x # xs) =
     (case decode x of
        Inl e \<Rightarrow> Inl e
      | Inr v \<Rightarrow> (case decode_list xs of Inl e \<Rightarrow> Inl e | Inr vs \<Rightarrow> Inr (v # vs)))"
| "decode_members [] = Inr []"
| "decode_members (kv # kvs) =
     (case decode (snd kv) of
        Inl e \<Rightarrow> Inl e
      | Inr v \<Rightarrow>
          (case decode_members kvs of Inl e \<Rightarrow> Inl e | Inr ps \<Rightarrow> Inr ((fst kv, v) # ps)))"

text \<open>
  What \<^verbatim>\<open>json.dump\<close> writes for a value; \<open>None\<close> when the value holds a datetime, which
  the encoder rejects with \<^verbatim>\<open>TypeError\<close>.
\<close>

fun encode :: "pyval \<Rightarrow> json option"
  and encode_list :: "pyval list \<Rightarrow> json list option"
  and encode_items :: "(string \<times> pyval) list \<Rightarrow> (string \<times> json) list option" where
  "encode PNone = Some JNull"
| "encode (PBool b) = Some (JBool b)"
| "encode (PNumber n) = Some (JNumber n)"
| "encode (PStr s) = Some (JString s)"
| "encode (PList xs) = map_option JArray (encode_list xs)"
| "encode (PDict kvs) = map_option JObject (encode_items kvs)"
| "encode (PDatetime _) = None"
| "encode_list [] = Some []"
| "encode_list (x # xs) =
     (case encode x of
        None \<Rightarrow> None
      | Some j \<Rightarrow> map_option (\<lambda>js. j # js) (encode_list xs))"
| "encode_items [] = Some []"
| "encode_items (kv # kvs) =
     (case encode (snd kv) of
        None \<Rightarrow> None
      | Some j \<Rightarrow> map_option (\<lambda>js. (fst kv, j) # js) (encode_items kvs))"

subsection \<open>The class \<^verbatim>\<open>Event\<close>\<close>

record event =
  title :: pyval
  date_time :: datetime
  tags :: pyval

text \<open>\<^verbatim>\<open>Event.__init__(title, date_time, tags=None)\<close>, with its \<^verbatim>\<open>tags or []\<close>.\<close>

definition Event :: "pyval \<Rightarrow> datetime \<Rightarrow> pyval \<Rightarrow> event" where
  "Event t d g = \<lparr>title = t, date_time = d, tags = (if truthy g then g else PList [])\<rparr>"

text \<open>
  An event of the data model: a text as title and a list of texts as tags. This is the
  call \<^verbatim>\<open>Event(t, d, g)\<close> on such arguments.
\<close>

definition text_event :: "string \<times> datetime \<times> string list \<Rightarrow> event" where
  "text_event x = (case x of (t, d, g) \<Rightarrow> Event (PStr t) d (PList (map PStr g)))"

text \<open>\<^verbatim>\<open>Event.time_until_event\<close>, given the reading of \<^verbatim>\<open>datetime.now()\<close>.\<close>

definition time_until_event :: "event \<Rightarrow> datetime \<Rightarrow> timedelta" where
  "time_until_event e now = datetime_sub (date_time e) now"

text \<open>
  \<^verbatim>\<open>Event(**event_data)\<close>: the value must be a dictionary, its keys must be among the
  parameters and must give \<^verbatim>\<open>title\<close> and \<^verbatim>\<open>date_time\<close>; anything else is a
  \<^verbatim>\<open>TypeError\<close>. The field \<open>date_time\<close> of the model is a datetime: a dictionary that
  the hook has seen holds nothing else under that key (lemma \<open>decode_date_time\<close>), and
  the branch for other values is never taken on decoded data.
\<close>

definition Event_kwargs :: "pyval \<Rightarrow> error + event" where
  "Event_kwargs v =
     (case v of
        PDict kvs \<Rightarrow>
          if \<not> list_all (\<lambda>kv. fst kv \<in> set [''title'', ''date_time'', ''tags'']) kvs
          then Inl TypeError
          else (case (map_of kvs ''title'', map_of kvs ''date_time'') of
                  (Some t, Some (PDatetime d)) \<Rightarrow>
                    Inr (Event t d (case map_of kvs ''tags'' of None \<Rightarrow> PNone | Some g \<Rightarrow> g))
                | _ \<Rightarrow> Inl TypeError)
      | _ \<Rightarrow> Inl TypeError)"

fun Event_kwargs_all :: "pyval list \<Rightarrow> error + event list" where
  "Event_kwargs_all [] = Inr []"
| "Event_kwargs_all (v # vs) =
     (case Event_kwargs v of
        Inl e \<Rightarrow> Inl e
      | Inr ev \<Rightarrow> (case Event_kwargs_all vs of Inl e \<Rightarrow> Inl e | Inr evs \<Rightarrow> Inr (ev # evs)))"

subsection \<open>The world of the manager: file system, view, clock\<close>

text \<open>
  What a file holds, as \<^verbatim>\<open>json.load\<close> sees it: a text that is not JSON (\<open>Garbled\<close>; the
  parser raises \<^verbatim>\<open>JSONDecodeError\<close>), or a JSON document. Writing and reading back a
  document is the identity of \<^verbatim>\<open>json.dump\<close> and \<^verbatim>\<open>json.load\<close>.
\<close>

datatype file_content = Garbled | Document json

text \<open>The calls made on the view, and the report of the error wrapper.\<close>

datatype view_call =
  Get_Input string
| Display_Message string
| Display_Error string
| Display_Events_List "event list"
| Display_Event_Details event
| Report_Error error

text \<open>
  The state: the two attributes of the manager (\<open>file_path\<close>, \<open>events\<close>), the files by
  path, the paths on which \<^verbatim>\<open>open\<close> is refused (\<^verbatim>\<open>PermissionError\<close>), the view, and the
  clock: \<open>clock st k\<close> is what the \<open>k\<close>-th call of \<^verbatim>\<open>datetime.now()\<close> returns, and
  \<open>ticks\<close> counts the calls made.
\<close>

record state =
  file_path :: string
  events :: "event list"
  files :: "string \<Rightarrow> file_content option"
  denied :: "string \<Rightarrow> bool"
  inputs :: "string list"
  outputs :: "view_call list"
  clock :: "nat \<Rightarrow> datetime"
  ticks :: nat

type_synonym 'a action = "state \<Rightarrow> (error + 'a) \<times> state"

text \<open>Sequencing: an exception ends the method and keeps the changes made so far.\<close>

definition and_then :: "'a action \<Rightarrow> ('a \<Rightarrow> 'b action) \<Rightarrow> 'b action" where
  "and_then m f st =
     (case m st of (Inl e, st1) \<Rightarrow> (Inl e, st1) | (Inr x, st1) \<Rightarrow> f x st1)"

definition display :: "view_call \<Rightarrow> unit action" where
  "display c st = (Inr (), st\<lparr>outputs := outputs st @ [c]\<rparr>)"

definition get_input :: "string \<Rightarrow> string action" where
  "get_input prompt st =
     (case inputs st of
        [] \<Rightarrow> (Inl EOFError, st\<lparr>outputs := outputs st @ [Get_Input prompt]\<rparr>)
      | x # xs \<Rightarrow> (Inr x, st\<lparr>inputs := xs, outputs := outputs st @ [Get_Input prompt]\<rparr>))"

text \<open>
  Modelled from the spec: \<^verbatim>\<open>handle_error\<close> of the module \<^verbatim>\<open>common\<close>, which is not part
  of the sources. The spec: a generic decorator-style wrapper that catches the
  exception, reports the error message, prevents the exception from terminating the
  process and takes no corrective action.
\<close>

definition handle_error :: "unit action \<Rightarrow> unit action" where
  "handle_error f st =
     (case f st of
        (Inl e, st1) \<Rightarrow> (Inr (), st1\<lparr>outputs := outputs st1 @ [Report_Error e]\<rparr>)
      | (Inr u, st1) \<Rightarrow> (Inr u, st1))"

subsection \<open>\<^verbatim>\<open>EventManager\<close>: loading and saving\<close>

definition open_read :: "string \<Rightarrow> state \<Rightarrow> error + file_content" where
  "open_read path st =
     (case files st path of
        None \<Rightarrow> Inl FileNotFoundError
      | Some content \<Rightarrow> if denied st path then Inl PermissionError else Inr content)"

definition json_load :: "file_content \<Rightarrow> error + pyval" where
  "json_load content =
     (case content of Garbled \<Rightarrow> Inl JSONDecodeError | Document doc \<Rightarrow> decode doc)"

text \<open>The body of the \<^verbatim>\<open>try\<close> in \<^verbatim>\<open>load_events\<close>.\<close>

definition read_events :: "state \<Rightarrow> error + event list" where
  "read_events st =
     (case open_read (file_path st) st of
        Inl e \<Rightarrow> Inl e
      | Inr content \<Rightarrow>
          (case json_load content of
             Inl e \<Rightarrow> Inl e
           | Inr events_data \<Rightarrow>
               (case py_iter events_data of
                  Inl e \<Rightarrow> Inl e
                | Inr items \<Rightarrow> Event_kwargs_all items)))"

text \<open>\<^verbatim>\<open>EventManager.load_events\<close>: the \<^verbatim>\<open>try\<close> with its one handler.\<close>

definition load_events :: "state \<Rightarrow> error + event list" where
  "load_events st =
     (case read_events st of
        Inl FileNotFoundError \<Rightarrow> Inr []
      | Inl e \<Rightarrow> Inl e
      | Inr evs \<Rightarrow> Inr evs)"

text \<open>\<^verbatim>\<open>EventManager.__init__\<close>: the events are those that \<^verbatim>\<open>load_events\<close> returns.\<close>

definition EventManager_init :: "state \<Rightarrow> error + state" where
  "EventManager_init st =
     (case load_events st of Inl e \<Rightarrow> Inl e | Inr evs \<Rightarrow> Inr (st\<lparr>events := evs\<rparr>))"

text \<open>
  One element of \<^verbatim>\<open>events_data\<close> in \<^verbatim>\<open>save_events\<close>: the copy of the object's
  \<^verbatim>\<open>__dict__\<close> with the formatted date.
\<close>

definition event_data :: "event \<Rightarrow> pyval" where
  "event_data e =
     PDict [(''title'', title e), (''date_time'', PStr (strftime (date_time e))),
            (''tags'', tags e)]"

text \<open>
  \<^verbatim>\<open>EventManager.save_events\<close>. \<^verbatim>\<open>open(path, 'w')\<close> empties the file before anything is
  written; when the encoder raises in the middle, the file is left with a part of the
  text.
\<close>

definition save_events :: "unit action" where
  "save_events st =
     (let events_data = PList (map event_data (events st)) in
      if denied st (file_path st) then (Inl PermissionError, st)
      else (case encode events_data of
              None \<Rightarrow> (Inl TypeError, st\<lparr>files := (files st)(file_path st \<mapsto> Garbled)\<rparr>)
            | Some doc \<Rightarrow> (Inr (), st\<lparr>files := (files st)(file_path st \<mapsto> Document doc)\<rparr>)))"

subsection \<open>\<^verbatim>\<open>EventManager\<close>: the operations\<close>

definition date_time_prompt_message :: string where
  "date_time_prompt_message = ''Please enter date and time in the format YYYY-MM-DD HH:MM.''"

text \<open>
  The loop \<^verbatim>\<open>while True\<close> of \<^verbatim>\<open>add_event\<close> and \<^verbatim>\<open>edit_event\<close>: ask until the answer
  parses. Only \<^verbatim>\<open>ValueError\<close> is caught. Every round takes one answer from the script, so
  the loop ends, with \<^verbatim>\<open>EOFError\<close> when no answer parses.
\<close>

function read_date_time :: "string \<Rightarrow> datetime action" where
  "read_date_time prompt st =
     (case get_input prompt st of
        (Inl e, st1) \<Rightarrow> (Inl e, st1)
      | (Inr s, st1) \<Rightarrow>
          (case strptime s of
             Inr dt \<Rightarrow> (Inr dt, st1)
           | Inl ValueError \<Rightarrow>
               read_date_time prompt (snd (display (Display_Message date_time_prompt_message) st1))
           | Inl e \<Rightarrow> (Inl e, st1)))"
  by pat_completeness auto
termination
  by (relation "measure (\<lambda>(prompt, st). length (inputs st))")
    (auto simp: get_input_def display_def split: list.splits)

declare read_date_time.simps [simp del]

text \<open>\<^verbatim>\<open>self.events.append(event)\<close>.\<close>

definition append_event :: "event \<Rightarrow> unit action" where
  "append_event e st = (Inr (), st\<lparr>events := events st @ [e]\<rparr>)"

text \<open>The body of \<^verbatim>\<open>add_event\<close>, and the method with its decorator.\<close>

definition add_event_body :: "unit action" where
  "add_event_body =
     and_then (get_input ''Enter event title: '') (\<lambda>title_in.
     and_then (read_date_time ''Enter event date and time (YYYY-MM-DD HH:MM): '') (\<lambda>dt.
     and_then (get_input ''Enter tags separated by commas: '') (\<lambda>tags_in.
     and_then (append_event
                 (Event (PStr title_in) dt (PList (map PStr (str_split CHR '','' tags_in))))) (\<lambda>_.
     and_then save_events (\<lambda>_.
     display (Display_Message ''Event added successfully.''))))))"

definition add_event :: "unit action" where
  "add_event = handle_error add_event_body"

text \<open>
  The condition of the comprehension in \<^verbatim>\<open>search_event\<close>:
  \<^verbatim>\<open>query in event.title or any(query in tag for tag in event.tags)\<close>.
\<close>

fun any_contains :: "string \<Rightarrow> pyval list \<Rightarrow> error + bool" where
  "any_contains q [] = Inr False"
| "any_contains q (t # ts) =
     (case py_contains q t of
        Inl e \<Rightarrow> Inl e
      | Inr b \<Rightarrow> if b then Inr True else any_contains q ts)"

definition event_matches :: "string \<Rightarrow> event \<Rightarrow> error + bool" where
  "event_matches q e =
     (case py_contains q (title e) of
        Inl err \<Rightarrow> Inl err
      | Inr b \<Rightarrow>
          if b then Inr True
          else (case py_iter (tags e) of
                  Inl err \<Rightarrow> Inl err
                | Inr ts \<Rightarrow> any_contains q ts))"

fun search_results :: "string \<Rightarrow> event list \<Rightarrow> error + event list" where
  "search_results q [] = Inr []"
| "search_results q (e # es) =
     (case event_matches q e of
        Inl err \<Rightarrow> Inl err
      | Inr b \<Rightarrow>
          (case search_results q es of
             Inl err \<Rightarrow> Inl err
           | Inr rs \<Rightarrow> Inr (if b then e # rs else rs)))"

definition search_event :: "unit action" where
  "search_event =
     and_then (get_input ''Enter event title to search: '') (\<lambda>query st.
       case search_results query (events st) of
         Inl err \<Rightarrow> (Inl err, st)
       | Inr results \<Rightarrow>
           if results \<noteq> []
           then and_then (display (Display_Message ''Search results''))
                  (\<lambda>_. display (Display_Events_List results)) st
           else display (Display_Error ''No events found matching the query'') st)"

text \<open>
  The loop \<^verbatim>\<open>for event in self.events: if event.title == title: ...; return\<close> of
  \<^verbatim>\<open>edit_event\<close> and \<^verbatim>\<open>delete_event\<close> stops at the first event with that title:
  \<open>first_index\<close> gives its position.
\<close>

fun first_index :: "('a \<Rightarrow> bool) \<Rightarrow> 'a list \<Rightarrow> nat option" where
  "first_index P [] = None"
| "first_index P (x # xs) = (if P x then Some 0 else map_option Suc (first_index P xs))"

definition not_found_message :: "string \<Rightarrow> string" where
  "not_found_message t = ''Event with title '' @ [CHR 0x22] @ t @ [CHR 0x22] @ '' not found.''"

text \<open>The assignments to the three fields of the event found, which change it in place.\<close>

definition set_fields :: "nat \<Rightarrow> event \<Rightarrow> unit action" where
  "set_fields i e st = (Inr (), st\<lparr>events := (events st)[i := e]\<rparr>)"

definition edit_event :: "unit action" where
  "edit_event =
     and_then (get_input ''Enter event title to edit: '') (\<lambda>title_in st.
       case first_index (\<lambda>e. title e = PStr title_in) (events st) of
         None \<Rightarrow> display (Display_Error (not_found_message title_in)) st
       | Some i \<Rightarrow>
          (and_then (get_input ''Enter new event title: '') (\<lambda>new_title.
           and_then (read_date_time ''Enter new event date and time (YYYY-MM-DD HH:MM): '')
             (\<lambda>new_date_time.
           and_then (get_input ''Enter new tags separated by commas: '') (\<lambda>tags_in.
             let edited = \<lparr>title = PStr new_title, date_time = new_date_time,
                            tags = PList (map PStr (str_split CHR '','' tags_in))\<rparr>
             in
           and_then (set_fields i edited) (\<lambda>_.
           and_then (display (Display_Message ''Event edited successfully. Updated details:''))
             (\<lambda>_.
           and_then (display (Display_Event_Details edited)) (\<lambda>_.
           save_events))))))) st)"

text \<open>
  \<^verbatim>\<open>self.events.remove(event)\<close> removes the object that the loop holds. \<^verbatim>\<open>Event\<close> has no
  \<^verbatim>\<open>__eq__\<close>, so \<^verbatim>\<open>remove\<close> compares by identity, and the list holds every object once:
  the element removed is the one at the position where the loop stopped.
\<close>

definition remove_at :: "nat \<Rightarrow> unit action" where
  "remove_at i st = (Inr (), st\<lparr>events := take i (events st) @ drop (Suc i) (events st)\<rparr>)"

definition delete_event :: "unit action" where
  "delete_event =
     and_then (get_input ''Enter event title to delete: '') (\<lambda>title_in st.
       case first_index (\<lambda>e. title e = PStr title_in) (events st) of
         None \<Rightarrow> display (Display_Error (not_found_message title_in)) st
       | Some i \<Rightarrow>
          (and_then (remove_at i) (\<lambda>_.
           and_then (display (Display_Message ''Event deleted successfully.'')) (\<lambda>_.
           save_events))) st)"

text \<open>\<^verbatim>\<open>datetime.now()\<close>: the next reading of the clock.\<close>

definition datetime_now :: "datetime action" where
  "datetime_now st = (Inr (clock st (ticks st)), st\<lparr>ticks := Suc (ticks st)\<rparr>)"

text \<open>
  The comprehension of \<^verbatim>\<open>show_upcoming_events\<close>: \<^verbatim>\<open>time_until_event\<close> reads the clock
  anew for every event; \<open>k\<close> is the number of the reading for the first event of the
  list.
\<close>

fun upcoming_events :: "(nat \<Rightarrow> datetime) \<Rightarrow> nat \<Rightarrow> event list \<Rightarrow> event list" where
  "upcoming_events clk k [] = []"
| "upcoming_events clk k (e # es) =
     (if time_until_event e (clk k) \<le> timedelta_days 7 then [e] else [])
       @ upcoming_events clk (Suc k) es"

definition select_upcoming :: "event list action" where
  "select_upcoming st =
     (Inr (upcoming_events (clock st) (ticks st) (events st)),
      st\<lparr>ticks := ticks st + length (events st)\<rparr>)"

text \<open>\<^verbatim>\<open>sorted(upcoming_events, key=lambda event: event.date_time)\<close>, a stable sort.\<close>

definition sorted_by_date_time :: "event list \<Rightarrow> event list" where
  "sorted_by_date_time evs = sort_key (\<lambda>e. datetime_key (date_time e)) evs"

definition show_upcoming_events_body :: "unit action" where
  "show_upcoming_events_body =
     and_then datetime_now (\<lambda>today.
     and_then select_upcoming (\<lambda>upcoming.
       if upcoming \<noteq> []
       then and_then (display (Display_Message ''Upcoming events within a week:''))
              (\<lambda>_. display (Display_Events_List (sorted_by_date_time upcoming)))
       else display (Display_Error ''No upcoming events within a week.'')))"

definition show_upcoming_events :: "unit action" where
  "show_upcoming_events = handle_error show_upcoming_events_body"

definition show_all_events_body :: "unit action" where
  "show_all_events_body st =
     (if events st = [] then display (Display_Message ''No events found.'') st
      else display (Display_Events_List (events st)) st)"

definition show_all_events :: "unit action" where
  "show_all_events = handle_error show_all_events_body"

text \<open>
  What \<open>save_events\<close> hands to \<^verbatim>\<open>json.dump\<close> for a list of events, as a document
  (\<open>None\<close> when the encoder rejects it).
\<close>

definition store_document :: "event list \<Rightarrow> json option" where
  "store_document evs = encode (PList (map event_data evs))"

text \<open>\<^verbatim>\<open>sep.join(parts)\<close>, the inverse of \<^verbatim>\<open>split\<close>.\<close>

fun str_join :: "string \<Rightarrow> string list \<Rightarrow> string" where
  "str_join sep [] = []"
| "str_join sep [p] = p"
| "str_join sep (p # q # ps) = p @ sep @ str_join sep (q # ps)"

text \<open>The view calls of the rounds of the date loop that reject an answer.\<close>

definition retries :: "string \<Rightarrow> string list \<Rightarrow> view_call list" where
  "retries prompt bad =
     concat (map (\<lambda>_. [Get_Input prompt, Display_Message date_time_prompt_message]) bad)"

text \<open>
  The persisted format in the words of the specification: an array of objects, each
  with \<^verbatim>\<open>title\<close> (a string), \<^verbatim>\<open>date_time\<close> (a string in the fixed format
  \<^verbatim>\<open>YYYY-MM-DD HH:MM\<close>: four digits for the year, two for every other field) and
  \<^verbatim>\<open>tags\<close> (an array of strings). \<open>file_holds rows st\<close> says that the file of the manager
  holds the events \<open>rows\<close> in this format.
\<close>

definition spec_date_text :: "datetime \<Rightarrow> string" where
  "spec_date_text d =
     pad4 (year d) @ ''-'' @ pad2 (month d) @ ''-'' @ pad2 (day d) @ '' ''
       @ pad2 (hour d) @ '':'' @ pad2 (minute d)"

definition event_json :: "string \<times> datetime \<times> string list \<Rightarrow> json" where
  "event_json x =
     (case x of (t, d, g) \<Rightarrow>
        JObject [(''title'', JString t), (''date_time'', JString (spec_date_text d)),
                 (''tags'', JArray (map JString g))])"

definition file_holds :: "(string \<times> datetime \<times> string list) list \<Rightarrow> state \<Rightarrow> bool" where
  "file_holds rows st =
     (files st (file_path st) = Some (Document (JArray (map event_json rows))))"

text \<open>
  A date whose year has four digits, and an event of the data model with a valid date of
  this kind.
\<close>

definition four_digit_year :: "datetime \<Rightarrow> bool" where
  "four_digit_year d = (1000 \<le> year d)"

definition fits_format :: "string \<times> datetime \<times> string list \<Rightarrow> bool" where
  "fits_format x = (valid_datetime (fst (snd x)) \<and> four_digit_year (fst (snd x)))"

text \<open>
  The dictionary that the hook makes of an object of the format, and the cut of a date
  to the minute.
\<close>

definition decoded_event :: "string \<times> datetime \<times> string list \<Rightarrow> pyval" where
  "decoded_event x =
     (case x of (t, d, g) \<Rightarrow>
        PDict [(''title'', PStr t), (''date_time'', PDatetime d),
               (''tags'', PList (map PStr g))])"

definition to_minute ::
  "string \<times> datetime \<times> string list \<Rightarrow> string \<times> datetime \<times> string list" where
  "to_minute x = (case x of (t, d, g) \<Rightarrow> (t, d\<lparr>second := 0, microsecond := 0\<rparr>, g))"

definition minute_precision :: "datetime \<Rightarrow> bool" where
  "minute_precision d = (second d = 0 \<and> microsecond d = 0)"

text \<open>
  The search condition in the words of the specification: the query is a substring of
  the title or of at least one tag.
\<close>

definition query_matches :: "string \<Rightarrow> string \<times> datetime \<times> string list \<Rightarrow> bool" where
  "query_matches q x = (case x of (t, d, g) \<Rightarrow> sublist q t \<or> list_ex (sublist q) g)"

text \<open>
  The event that \<open>add_event\<close> builds, and \<open>edit_event\<close> leaves, from the title typed,
  the date parsed and the line of tags typed.
\<close>

definition new_event :: "string \<Rightarrow> datetime \<Rightarrow> string \<Rightarrow> event" where
  "new_event t dt s =
     \<lparr>title = PStr t, date_time = dt, tags = PList (map PStr (str_split CHR '','' s))\<rparr>"


subsection \<open>Example data\<close>

definition example_now :: datetime where
  "example_now =
     \<lparr>year = 2099, month = 1, day = 1, hour = 8, minute = 0, second = 30, microsecond = 250\<rparr>"

definition example_rows :: "(string \<times> datetime \<times> string list) list" where
  "example_rows =
     [(''Review'',
       \<lparr>year = 2099, month = 1, day = 11, hour = 8, minute = 0, second = 0, microsecond = 0\<rparr>,
       [''work'', ''team'']),
      (''Lunch'',
       \<lparr>year = 2099, month = 1, day = 4, hour = 12, minute = 30, second = 0, microsecond = 0\<rparr>,
       []),
      (''Standup'',
       \<lparr>year = 2099, month = 1, day = 1, hour = 9, minute = 0, second = 0, microsecond = 0\<rparr>,
       [''work'']),
      (''Party'',
       \<lparr>year = 2098, month = 12, day = 31, hour = 22, minute = 0, second = 0, microsecond = 0\<rparr>,
       [''fun'']),
      (''Lunch'',
       \<lparr>year = 2099, month = 1, day = 5, hour = 12, minute = 30, second = 0, microsecond = 0\<rparr>,
       [''food''])]"

definition example_state :: state where
  "example_state =
     \<lparr>file_path = ''events.json'', events = map text_event example_rows,
      files = Map.empty, denied = (\<lambda>_. False), inputs = [], outputs = [],
      clock = (\<lambda>_. example_now), ticks = 0\<rparr>"

definition example_edit_inputs :: "string list" where
  "example_edit_inputs = [''Lunch'', ''Brunch'', ''tomorrow'', ''2099-01-04 11:00'', ''food, out'']"

definition example_edited :: "string \<times> datetime \<times> string list" where
  "example_edited =
     (''Brunch'',
      \<lparr>year = 2099, month = 1, day = 4, hour = 11, minute = 0, second = 0, microsecond = 0\<rparr>,
      [''food'', '' out''])"

definition example_add_inputs :: "string list" where
  "example_add_inputs = [''Solo'', ''2099-01-04 11:00'', '''']"

definition example_added :: "string \<times> datetime \<times> string list" where
  "example_added =
     (''Solo'',
      \<lparr>year = 2099, month = 1, day = 4, hour = 11, minute = 0, second = 0, microsecond = 0\<rparr>,
      [''''])"


definition example_old_date :: datetime where
  "example_old_date =
     \<lparr>year = 999, month = 1, day = 1, hour = 0, minute = 0, second = 0, microsecond = 0\<rparr>"

definition example_old_row :: "string \<times> datetime \<times> string list" where
  "example_old_row = (''Old'', example_old_date, [''x''])"

definition example_old_inputs :: "string list" where
  "example_old_inputs = [''Old'', ''0999-01-01 00:00'', ''x'']"

definition example_old_state :: state where
  "example_old_state = example_state\<lparr>events := map text_event [example_old_row, example_rows ! 1]\<rparr>"

definition example_fresh_state :: state where
  "example_fresh_state = example_state\<lparr>events := []\<rparr>"

definition example_old_json :: json where
  "example_old_json =
     JObject [(''title'', JString ''Old''), (''date_time'', JString ''999-01-01 00:00''),
              (''tags'', JArray [JString ''x''])]"

definition example_denied_state :: state where
  "example_denied_state = example_state\<lparr>denied := (\<lambda>p. p = ''events.json'')\<rparr>"

definition example_malformed_file :: json where
  "example_malformed_file =
     JArray [JObject [(''title'', JNumber (PyInt 5)), (''date_time'', JString ''2099-01-04 11:00'')]]"

definition example_malformed_state :: state where
  "example_malformed_state =
     example_state\<lparr>events := [], files := [''events.json'' \<mapsto> Document example_malformed_file]\<rparr>"

section \<open>Properties\<close>

subsection \<open>The date codec\<close>

lemma digit_cases: "k < 10 \<Longrightarrow> k \<in> {0, 1, 2, 3, 4, 5, 6, 7, 8, 9::nat}"
  by auto

lemma digit_of_digit_char [simp]: "k < 10 \<Longrightarrow> digit_of (digit_char k) = Some k"
  by (drule digit_cases, elim insertE emptyE; simp add: digit_of_def digit_char_def)

lemma digit_in_digit_char [simp]:
  "k < 10 \<Longrightarrow> digit_in lo hi (digit_char k) = (lo \<le> k \<and> k \<le> hi)"
  by (simp add: digit_in_def)

lemma digit_val_digit_char [simp]: "k < 10 \<Longrightarrow> digit_val (digit_char k) = k"
  by (simp add: digit_val_def)

lemma digit_char_not_minus [simp]: "k < 10 \<Longrightarrow> digit_char k \<noteq> CHR ''-''"
  by (drule digit_cases, elim insertE emptyE; simp add: digit_char_def)

lemma digit_char_not_colon [simp]: "k < 10 \<Longrightarrow> digit_char k \<noteq> CHR '':''"
  by (drule digit_cases, elim insertE emptyE; simp add: digit_char_def)

lemma digit_char_not_blank [simp]: "k < 10 \<Longrightarrow> digit_char k \<noteq> CHR '' ''"
  by (drule digit_cases, elim insertE emptyE; simp add: digit_char_def)

lemma digit_char_not_space [simp]: "k < 10 \<Longrightarrow> \<not> is_space (digit_char k)"
  by (drule digit_cases, elim insertE emptyE; simp add: digit_char_def is_space_def)

lemma is_space_blank [simp]: "is_space CHR '' ''"
  by (simp add: is_space_def)

lemma mod10_le9 [simp]: "n mod 10 \<le> (9::nat)"
proof -
  have "n mod 10 < 10" by simp
  then show ?thesis by linarith
qed

lemma decimal4:
  "1000 * (y div 1000) + 100 * (y div 100 mod 10) + 10 * (y div 10 mod 10) + y mod 10 = (y::nat)"
proof -
  have a: "y div 100 = y div 10 div 10" "y div 1000 = y div 10 div 10 div 10"
    by (simp_all add: div_mult2_eq[symmetric])
  define q1 where "q1 = y div 10"
  define q2 where "q2 = q1 div 10"
  define q3 where "q3 = q2 div 10"
  have "y = 10 * q1 + y mod 10" "q1 = 10 * q2 + q1 mod 10" "q2 = 10 * q3 + q2 mod 10"
    unfolding q1_def q2_def q3_def by simp_all
  then show ?thesis
    unfolding a q1_def[symmetric] q2_def[symmetric] q3_def[symmetric] by linarith
qed

lemma re_Y_pad4: "y \<le> 9999 \<Longrightarrow> re_Y (pad4 y @ r) = [(y, r)]"
proof -
  assume "y \<le> 9999"
  then have "y div 1000 < 10" "y div 1000 \<le> 9" by simp_all
  then show ?thesis by (simp add: pad4_def decimal4)
qed

lemma pad2_split:
  "n < 100 \<Longrightarrow> \<exists>a b. a < 10 \<and> b < 10 \<and> n = 10 * a + b \<and> pad2 n = [digit_char a, digit_char b]"
  by (rule exI[of _ "n div 10"], rule exI[of _ "n mod 10"]) (simp add: pad2_def)

lemma re_m_pad2:
  assumes "1 \<le> m" "m \<le> 12"
  shows "re_m (pad2 m @ r) = (m, r) # (if 10 \<le> m then [(1, digit_char (m mod 10) # r)] else [])"
proof -
  from assms obtain a b
    where "a < 10" "b < 10" "m = 10 * a + b" "pad2 m = [digit_char a, digit_char b]"
    using pad2_split[of m] by auto
  with assms show ?thesis by (auto simp add: re_m_def; presburger)
qed

lemma re_d_pad2:
  assumes "1 \<le> d" "d \<le> 31"
  shows "re_d (pad2 d @ r)
         = (d, r) # (if 10 \<le> d then [(d div 10, digit_char (d mod 10) # r)] else [])"
proof -
  from assms obtain a b
    where "a < 10" "b < 10" "d = 10 * a + b" "pad2 d = [digit_char a, digit_char b]"
    using pad2_split[of d] by auto
  with assms show ?thesis by (auto simp add: re_d_def; presburger)
qed

lemma re_H_pad2:
  assumes "h < 24"
  shows "re_H (pad2 h @ r) = [(h, r), (h div 10, digit_char (h mod 10) # r)]"
proof -
  from assms obtain a b
    where "a < 10" "b < 10" "h = 10 * a + b" "pad2 h = [digit_char a, digit_char b]"
    using pad2_split[of h] by auto
  with assms show ?thesis by (auto simp add: re_H_def)
qed

lemma re_M_pad2:
  assumes "n < 60"
  shows "re_M (pad2 n @ r) = [(n, r), (n div 10, digit_char (n mod 10) # r)]"
proof -
  from assms obtain a b
    where "a < 10" "b < 10" "n = 10 * a + b" "pad2 n = [digit_char a, digit_char b]"
    using pad2_split[of n] by auto
  with assms show ?thesis by (auto simp add: re_M_def)
qed

lemma re_spaces_pad2: "re_spaces (pad2 n @ r) = []"
  by (simp add: pad2_def)

lemma days_in_month_le: "1 \<le> m \<Longrightarrow> m \<le> 12 \<Longrightarrow> days_in_month y m \<le> 31"
proof -
  assume "1 \<le> m" "m \<le> 12"
  then have "m \<in> {1, 2, 3, 4, 5, 6, 7, 8, 9, 10, 11, 12}" by simp presburger
  then show ?thesis by (elim insertE emptyE; simp add: days_in_month_def)
qed

text \<open>Parsing a date text of the fixed format gives the datetime, cut to the minute.\<close>

lemma strptime_spec_date_text:
  assumes "valid_datetime dt"
  shows "strptime (spec_date_text dt) = Inr (dt\<lparr>second := 0, microsecond := 0\<rparr>)"
proof -
  have d31: "day dt \<le> 31"
    using assms days_in_month_le[of "month dt" "year dt"] by (simp add: valid_datetime_def)
  have "regex_match (spec_date_text dt) =
        [(year dt, month dt, day dt, hour dt, minute dt, []),
         (year dt, month dt, day dt, hour dt, minute dt div 10,
          [digit_char (minute dt mod 10)])]"
    using assms d31
    by (simp add: regex_match_def spec_date_text_def valid_datetime_def re_Y_pad4 re_m_pad2
        re_d_pad2 re_H_pad2 re_M_pad2 re_spaces_pad2 re_M_pad2[of _ "[]", simplified])
  then show ?thesis
    using assms by (simp add: strptime_def datetime_new_def valid_datetime_def)
qed

text \<open>
  \<open>strftime\<close> writes the fixed format exactly when the year has four digits; the text
  it writes for an earlier year has no four digits at its start and does not parse.
\<close>

lemma decimal_digits:
  "n < 10 \<Longrightarrow> decimal n = [digit_char n]"
  "10 \<le> n \<Longrightarrow> decimal n = decimal (n div 10) @ [digit_char (n mod 10)]"
  by (subst decimal.simps, simp)+

lemma decimal_four_digits:
  assumes "1000 \<le> y" and "y \<le> 9999"
  shows "decimal y = pad4 y"
proof -
  have d: "y div 100 = y div 10 div 10" "y div 1000 = y div 10 div 10 div 10"
    by (simp_all add: div_mult2_eq[symmetric])
  have "10 \<le> y" "10 \<le> y div 10" "10 \<le> y div 10 div 10" "y div 10 div 10 div 10 < 10"
    using assms by (simp_all add: d[symmetric])
  then show ?thesis
    by (simp add: decimal_digits pad4_def d)
qed

lemma minus_no_digit: "digit_in 0 9 CHR ''-'' = False"
  by (simp add: digit_in_def digit_of_def)

lemma re_Y_minus:
  "re_Y (a # CHR ''-'' # r) = []"
  "re_Y (a # b # CHR ''-'' # r) = []"
  "re_Y (a # b # c # CHR ''-'' # r) = []"
proof -
  show "re_Y (a # CHR ''-'' # r) = []"
    by (cases r; cases "tl r"; simp add: minus_no_digit)
  show "re_Y (a # b # CHR ''-'' # r) = []"
    by (cases r; simp add: minus_no_digit)
  show "re_Y (a # b # c # CHR ''-'' # r) = []"
    by (simp add: minus_no_digit)
qed

lemma decimal_below_1000:
  assumes "y < 1000"
  shows "re_Y (decimal y @ CHR ''-'' # r) = []"
proof -
  consider "y < 10" | "10 \<le> y" "y < 100" | "100 \<le> y" "y < 1000"
    using assms by linarith
  then show ?thesis
  proof cases
    case 1
    then show ?thesis
      by (simp add: decimal_digits re_Y_minus minus_no_digit)
  next
    case 2
    then have "y div 10 < 10" by simp
    with 2 show ?thesis
      by (simp add: decimal_digits re_Y_minus minus_no_digit)
  next
    case 3
    then have "10 \<le> y div 10" "y div 10 div 10 < 10" by simp_all
    with 3 show ?thesis
      by (simp add: decimal_digits re_Y_minus minus_no_digit)
  qed
qed

lemma strftime_four_digit_year:
  assumes "valid_datetime dt" and "four_digit_year dt"
  shows "strftime dt = spec_date_text dt"
  using assms
  by (simp add: strftime_def spec_date_text_def valid_datetime_def four_digit_year_def
      decimal_four_digits)

lemma strptime_strftime:
  assumes "valid_datetime dt" and "four_digit_year dt"
  shows "strptime (strftime dt) = Inr (dt\<lparr>second := 0, microsecond := 0\<rparr>)"
  using assms by (simp add: strftime_four_digit_year strptime_spec_date_text)

lemma strptime_strftime_before_1000:
  assumes "year dt < 1000"
  shows "strptime (strftime dt) = Inl ValueError"
  using assms by (simp add: strptime_def regex_match_def strftime_def decimal_below_1000)

lemma strptime_error: "strptime s = Inl e \<Longrightarrow> e = ValueError"
  by (auto simp: strptime_def datetime_new_def Let_def split: list.splits if_splits)

subsection \<open>Saving and loading events of the data model\<close>

lemma text_event_fields [simp]:
  "text_event (t, d, g) = \<lparr>title = PStr t, date_time = d, tags = PList (map PStr g)\<rparr>"
  by (simp add: text_event_def Event_def)

lemma encode_texts [simp]: "encode_list (map PStr g) = Some (map JString g)"
  by (induction g) simp_all

lemma decode_texts [simp]: "decode_list (map JString g) = Inr (map PStr g)"
  by (induction g) simp_all

lemma encode_text_event:
  assumes "fits_format x"
  shows "encode (event_data (text_event x)) = Some (event_json x)"
  using assms
  by (cases x) (simp add: event_data_def event_json_def fits_format_def strftime_four_digit_year)

lemma encode_text_events:
  assumes "list_all fits_format xs"
  shows "encode_list (map (event_data \<circ> text_event) xs) = Some (map event_json xs)"
  using assms by (induction xs) (simp_all add: encode_text_event)

lemma store_document_text_events:
  assumes "list_all fits_format xs"
  shows "store_document (map text_event xs) = Some (JArray (map event_json xs))"
  using assms by (simp add: store_document_def encode_text_events)

lemma decode_event_json:
  assumes "valid_datetime (fst (snd x))"
  shows "decode (event_json x) = Inr (decoded_event (to_minute x))"
  using assms
  by (cases x)
    (simp add: event_json_def dict_of_pairs_def event_decoder_def strptime_spec_date_text
      decoded_event_def to_minute_def)

lemma decode_event_jsons:
  assumes "list_all (\<lambda>x. valid_datetime (fst (snd x))) xs"
  shows "decode_list (map event_json xs) = Inr (map (decoded_event \<circ> to_minute) xs)"
  using assms by (induction xs) (simp_all add: decode_event_json)

lemma Event_kwargs_decoded [simp]: "Event_kwargs (decoded_event x) = Inr (text_event x)"
  by (cases x) (simp add: Event_kwargs_def Event_def decoded_event_def)

lemma Event_kwargs_all_decoded [simp]:
  "Event_kwargs_all (map (decoded_event \<circ> f) xs) = Inr (map (text_event \<circ> f) xs)"
  by (induction xs) simp_all

lemma save_events_ok:
  assumes "\<not> denied st (file_path st)" and "store_document (events st) = Some doc"
  shows "save_events st = (Inr (), st\<lparr>files := (files st)(file_path st \<mapsto> Document doc)\<rparr>)"
  using assms by (auto simp: save_events_def store_document_def)

lemma save_events_denied:
  "denied st (file_path st) \<Longrightarrow> save_events st = (Inl PermissionError, st)"
  by (simp add: save_events_def)

lemma save_text_events:
  assumes "events st = map text_event xs" and "list_all fits_format xs"
    and "\<not> denied st (file_path st)"
  shows "save_events st
         = (Inr (), st\<lparr>files := (files st)(file_path st \<mapsto>
                                     Document (JArray (map event_json xs)))\<rparr>)"
  using assms by (simp add: save_events_def encode_text_events)

text \<open>
  Loading a file in the fixed format gives the events with their dates cut to the
  minute.
\<close>

lemma load_saved_events:
  assumes "files st (file_path st) = Some (Document (JArray (map event_json xs)))"
    and "\<not> denied st (file_path st)"
    and "list_all (\<lambda>x. valid_datetime (fst (snd x))) xs"
  shows "load_events st = Inr (map (text_event \<circ> to_minute) xs)"
  using assms
  by (simp add: load_events_def read_events_def open_read_def json_load_def decode_event_jsons)

lemma to_minute_id: "minute_precision (fst (snd x)) \<Longrightarrow> to_minute x = x"
  by (cases x) (simp add: to_minute_def minute_precision_def)

lemma date_time_text_event [simp]: "date_time (text_event x) = fst (snd x)"
  by (cases x) simp

text \<open>
  From the year 1000 on: \<open>save_events\<close> writes the fixed format, and \<open>load_events\<close>, in
  a manager that holds any other list, reads the saved events back from the file.
\<close>

lemma save_load_from_1000:
  assumes "events st = map text_event xs" and "list_all fits_format xs"
    and "list_all (\<lambda>x. minute_precision (fst (snd x))) xs"
    and "\<not> denied st (file_path st)"
  shows "fst (save_events st) = Inr ()"
    and "file_holds xs (snd (save_events st))"
    and "load_events ((snd (save_events st))\<lparr>events := evs\<rparr>) = Inr (events st)"
proof -
  note s = save_text_events[OF assms(1,2,4)]
  show "fst (save_events st) = Inr ()" "file_holds xs (snd (save_events st))"
    by (simp_all add: s file_holds_def)
  have v: "list_all (\<lambda>x. valid_datetime (fst (snd x))) xs"
    using assms(2) by (simp add: list_all_iff fits_format_def)
  have m: "map (text_event \<circ> to_minute) xs = map text_event xs"
    using assms(3) by (simp add: list_all_iff to_minute_id)
  show "load_events ((snd (save_events st))\<lparr>events := evs\<rparr>) = Inr (events st)"
    using assms(1,4) load_saved_events[OF _ _ v, of "(snd (save_events st))\<lparr>events := evs\<rparr>"] m
    by (simp add: s)
qed

lemma example_old_facts:
  "strftime example_old_date = ''999-01-01 00:00''"
  "spec_date_text example_old_date = ''0999-01-01 00:00''"
  "valid_datetime example_old_date"
  "minute_precision example_old_date"
  "strptime ''999-01-01 00:00'' = Inl ValueError"
  "strptime ''0999-01-01 00:00'' = Inr example_old_date"
proof -
  show "strftime example_old_date = ''999-01-01 00:00''"
    by (simp add: example_old_date_def strftime_def decimal_digits pad2_def digit_char_def)
  show "spec_date_text example_old_date = ''0999-01-01 00:00''"
    by (simp add: example_old_date_def spec_date_text_def pad4_def pad2_def digit_char_def)
  show "valid_datetime example_old_date"
    by (simp add: example_old_date_def valid_datetime_def days_in_month_def is_leap_def)
  show "minute_precision example_old_date"
    by (simp add: example_old_date_def minute_precision_def)
  show "strptime ''999-01-01 00:00'' = Inl ValueError"
    by (simp add: strptime_def regex_match_def minus_no_digit)
  show "strptime ''0999-01-01 00:00'' = Inr example_old_date"
    by (simp add: strptime_def regex_match_def re_m_def re_d_def re_H_def re_M_def
        digit_in_def digit_of_def digit_val_def is_space_def datetime_new_def
        valid_datetime_def days_in_month_def is_leap_def example_old_date_def)
qed

text \<open>
  What the encoder writes for the event of the year 999, and what the decoder makes of
  an array that holds it.
\<close>

lemma encode_old_row: "encode (event_data (text_event example_old_row)) = Some example_old_json"
  by (simp add: example_old_row_def event_data_def example_old_json_def example_old_facts)

lemma store_document_old_row:
  assumes "list_all fits_format xs"
  shows "store_document (text_event example_old_row # map text_event xs)
         = Some (JArray (example_old_json # map event_json xs))"
  using assms encode_text_events[of xs]
  by (simp add: store_document_def encode_old_row)

lemma old_json_differs: "example_old_json \<noteq> event_json example_old_row"
  by (simp add: example_old_json_def event_json_def example_old_row_def example_old_facts)

lemma decode_old_json: "decode example_old_json = Inl ValueError"
  by (simp add: example_old_json_def dict_of_pairs_def event_decoder_def example_old_facts)

lemma load_old_file:
  assumes "files st (file_path st) = Some (Document (JArray (example_old_json # js)))"
    and "\<not> denied st (file_path st)"
  shows "load_events st = Inl ValueError"
  using assms
  by (simp add: load_events_def read_events_def open_read_def json_load_def decode_old_json)

lemma example_rows_fit: "list_all fits_format example_rows" "fits_format example_edited"
  "fits_format example_added"
  by (simp_all add: example_rows_def example_edited_def example_added_def fits_format_def
      valid_datetime_def four_digit_year_def days_in_month_def is_leap_def)


lemma example_denied_facts:
  "denied (example_denied_state\<lparr>inputs := xs\<rparr>) (file_path (example_denied_state\<lparr>inputs := xs\<rparr>))"
  "events (example_denied_state\<lparr>inputs := xs\<rparr>) = map text_event example_rows"
  "outputs (example_denied_state\<lparr>inputs := xs\<rparr>) = []"
  by (simp_all add: example_denied_state_def example_state_def)


lemma example_old_state_facts:
  "events example_old_state = map text_event [example_old_row, example_rows ! 1]"
  "\<not> denied example_old_state p"
  "file_path example_old_state = ''events.json''"
  "outputs example_old_state = []"
  "files example_old_state p = None"
  "inputs example_old_state = []"
  by (simp_all add: example_old_state_def example_state_def)

text \<open>
  C1. Saving and loading does not give the events back when a date lies before the year
  1000. The store of the example holds an event of 1 January 999, 00:00, a valid date
  with minute precision that \<open>add_event\<close> accepts when it is typed as
  \<^verbatim>\<open>0999-01-01 00:00\<close>. \<open>save_events\<close> succeeds and writes this date as
  \<^verbatim>\<open>999-01-01 00:00\<close>; \<open>load_events\<close> on the file just written raises
  \<^verbatim>\<open>ValueError\<close>, in a manager that starts on this file as well. From the year 1000
  on the events come back as they were (\<open>save_load_from_1000\<close>).
\<close>

theorem save_load_fails_before_1000:
  "events example_old_state = map text_event [example_old_row, example_rows ! 1]
   \<and> list_all (\<lambda>e. valid_datetime (date_time e) \<and> minute_precision (date_time e))
        (events example_old_state)
   \<and> strptime ''0999-01-01 00:00'' = Inr example_old_date
   \<and> strftime example_old_date = ''999-01-01 00:00''
   \<and> strptime (strftime example_old_date) = Inl ValueError
   \<and> fst (save_events example_old_state) = Inr ()
   \<and> files (snd (save_events example_old_state)) ''events.json''
       = Some (Document (JArray [example_old_json, event_json (example_rows ! 1)]))
   \<and> load_events ((snd (save_events example_old_state))\<lparr>events := []\<rparr>) = Inl ValueError
   \<and> load_events ((snd (save_events example_old_state))\<lparr>events := []\<rparr>)
       \<noteq> Inr (events example_old_state)
   \<and> EventManager_init (snd (save_events example_old_state)) = Inl ValueError"
proof -
  let ?doc = "JArray [example_old_json, event_json (example_rows ! 1)]"
  have f: "list_all fits_format [example_rows ! 1]"
    using example_rows_fit(1) by (simp add: example_rows_def)
  have d: "store_document (events example_old_state) = Some ?doc"
    using store_document_old_row[OF f] by (simp add: example_old_state_facts)
  have s: "save_events example_old_state
           = (Inr (), example_old_state\<lparr>files := (files example_old_state)
                        (file_path example_old_state \<mapsto> Document ?doc)\<rparr>)"
    using d by (intro save_events_ok) (simp_all add: example_old_state_facts)
  have c1: "events example_old_state = map text_event [example_old_row, example_rows ! 1]"
    by (rule example_old_state_facts)
  have c2: "list_all (\<lambda>e. valid_datetime (date_time e) \<and> minute_precision (date_time e))
        (events example_old_state)"
    using f example_old_facts(3,4)
    by (simp add: example_old_state_facts example_old_row_def fits_format_def
        example_rows_def minute_precision_def)
  have c3: "strptime ''0999-01-01 00:00'' = Inr example_old_date"
    and c4: "strftime example_old_date = ''999-01-01 00:00''"
    and c5: "strptime (strftime example_old_date) = Inl ValueError"
    by (simp_all add: example_old_facts)
  have c6: "fst (save_events example_old_state) = Inr ()"
    and c7: "files (snd (save_events example_old_state)) ''events.json'' = Some (Document ?doc)"
    by (simp_all add: s example_old_state_facts)
  have c8: "load_events ((snd (save_events example_old_state))\<lparr>events := []\<rparr>) = Inl ValueError"
    by (rule load_old_file[where js = "[event_json (example_rows ! 1)]"])
      (simp_all add: s example_old_state_facts)
  have c9: "load_events ((snd (save_events example_old_state))\<lparr>events := []\<rparr>)
       \<noteq> Inr (events example_old_state)"
    by (simp add: c8)
  have l: "load_events (snd (save_events example_old_state)) = Inl ValueError"
    by (rule load_old_file[where js = "[event_json (example_rows ! 1)]"])
      (simp_all add: s example_old_state_facts)
  have c10: "EventManager_init (snd (save_events example_old_state)) = Inl ValueError"
    by (simp add: EventManager_init_def l)
  show ?thesis
    by (intro conjI c1 c2 c3 c4 c5 c6 c7 c8 c9 c10)
qed

subsection \<open>Steps of the operations\<close>

lemma and_then_Inr: "m st = (Inr x, st1) \<Longrightarrow> and_then m f st = f x st1"
  by (simp add: and_then_def)

lemma and_then_Inl: "m st = (Inl e, st1) \<Longrightarrow> and_then m f st = (Inl e, st1)"
  by (simp add: and_then_def)

lemma get_input_Cons:
  "inputs st = x # xs \<Longrightarrow>
   get_input p st = (Inr x, st\<lparr>inputs := xs, outputs := outputs st @ [Get_Input p]\<rparr>)"
  by (simp add: get_input_def)

lemma read_date_time_accepts:
  assumes "inputs st = bad @ good # rest"
    and "list_all (\<lambda>s. isl (strptime s)) bad"
    and "strptime good = Inr dt"
  shows "read_date_time p st
         = (Inr dt, st\<lparr>inputs := rest, outputs := outputs st @ retries p bad @ [Get_Input p]\<rparr>)"
  using assms
proof (induction bad arbitrary: st)
  case Nil
  then show ?case
    by (subst read_date_time.simps) (simp add: get_input_Cons retries_def)
next
  case (Cons b bad)
  from Cons.prems(2) have b: "strptime b = Inl ValueError"
    by (cases "strptime b") (auto dest: strptime_error)
  let ?st2 = "st\<lparr>inputs := bad @ good # rest,
                  outputs := outputs st @ [Get_Input p, Display_Message date_time_prompt_message]\<rparr>"
  have step: "read_date_time p st = read_date_time p ?st2"
    using Cons.prems(1) b
    by (subst read_date_time.simps) (simp add: get_input_Cons display_def)
  have "read_date_time p ?st2
        = (Inr dt, ?st2\<lparr>inputs := rest, outputs := outputs ?st2 @ retries p bad @ [Get_Input p]\<rparr>)"
    using Cons.prems by (intro Cons.IH) simp_all
  with step show ?case by (simp add: retries_def)
qed


lemma str_split_not_Nil [simp]: "str_split sep s \<noteq> []"
  by (induction s) (auto split: list.splits)

lemma str_join_str_split: "str_join [sep] (str_split sep s) = s"
proof (induction s)
  case Nil
  show ?case by simp
next
  case (Cons c cs)
  obtain p ps where sp: "str_split sep cs = p # ps"
    by (cases "str_split sep cs") simp_all
  with Cons show ?case by (cases ps) auto
qed

lemma str_split_no_separator: "list_all (\<lambda>p. sep \<notin> set p) (str_split sep s)"
  by (induction s) (auto split: list.splits)

lemma str_split_length: "length (str_split sep s) = Suc (count_list s sep)"
  by (induction s) (auto split: list.splits)

lemma save_events_frame:
  "events (snd (save_events st)) = events st"
  "inputs (snd (save_events st)) = inputs st"
  "outputs (snd (save_events st)) = outputs st"
  "file_path (snd (save_events st)) = file_path st"
  "denied (snd (save_events st)) = denied st"
  by (simp_all add: save_events_def Let_def split: option.splits)

lemma Event_of_input:
  "Event (PStr t) dt (PList (map PStr (str_split CHR '','' s))) = new_event t dt s"
  by (simp add: Event_def new_event_def)

lemma add_event_body_steps:
  assumes "inputs st = t # bad @ good # s # rest"
    and "list_all (\<lambda>x. isl (strptime x)) bad"
    and "strptime good = Inr dt"
  shows "add_event_body st =
           and_then save_events (\<lambda>_. display (Display_Message ''Event added successfully.''))
             (st\<lparr>inputs := rest,
                 outputs := outputs st @ [Get_Input ''Enter event title: '']
                   @ retries ''Enter event date and time (YYYY-MM-DD HH:MM): '' bad
                   @ [Get_Input ''Enter event date and time (YYYY-MM-DD HH:MM): '',
                      Get_Input ''Enter tags separated by commas: ''],
                 events := events st @ [new_event t dt s]\<rparr>)"
proof -
  let ?p = "''Enter event date and time (YYYY-MM-DD HH:MM): ''"
  let ?st1 = "st\<lparr>inputs := bad @ good # s # rest,
                  outputs := outputs st @ [Get_Input ''Enter event title: '']\<rparr>"
  have 1: "get_input ''Enter event title: '' st = (Inr t, ?st1)"
    using assms(1) by (simp add: get_input_Cons)
  let ?st2 = "?st1\<lparr>inputs := s # rest, outputs := outputs ?st1 @ retries ?p bad @ [Get_Input ?p]\<rparr>"
  have 2: "read_date_time ?p ?st1 = (Inr dt, ?st2)"
    using assms(2,3) by (intro read_date_time_accepts) simp_all
  show ?thesis
    unfolding add_event_body_def
    by (simp add: and_then_def 1 2 get_input_Cons Event_of_input append_event_def)
qed

lemma events_after_save_and_display:
  "events (snd (and_then save_events (\<lambda>_. display c) st)) = events st"
  by (cases "save_events st" rule: prod.exhaust)
    (use save_events_frame(1)[of st] in \<open>auto simp: and_then_def display_def split: sum.splits\<close>)

lemma events_handle_error [simp]: "events (snd (handle_error f st)) = events (snd (f st))"
  by (auto simp: handle_error_def split: prod.splits sum.splits)

lemma add_event_events:
  assumes "inputs st = t # bad @ good # s # rest"
    and "list_all (\<lambda>x. isl (strptime x)) bad"
    and "strptime good = Inr dt"
  shows "events (snd (add_event st)) = events st @ [new_event t dt s]"
  by (simp add: add_event_def add_event_body_steps[OF assms] events_after_save_and_display)

subsection \<open>Searching\<close>

lemma any_contains_texts: "any_contains q (map PStr g) = Inr (list_ex (sublist q) g)"
  by (induction g) simp_all

lemma event_matches_text_event: "event_matches q (text_event x) = Inr (query_matches q x)"
  by (cases x) (simp add: event_matches_def query_matches_def any_contains_texts)

lemma search_results_text_events:
  "search_results q (map text_event xs) = Inr (map text_event (filter (query_matches q) xs))"
  by (induction xs) (simp_all add: event_matches_text_event)

text \<open>
  C2. For every store of events of the data model and every query typed, the
  comprehension of \<open>search_event\<close> yields exactly the events for which the query is a
  substring (character for character, so case-sensitive) of the title or of at least one
  tag, in the order of the store; \<open>search_event\<close> hands this list to the view, and
  reports that nothing was found when the list is empty. Memory and files stay as they
  were.
\<close>

theorem search_event_exact:
  assumes "events st = map text_event xs" and "inputs st = q # rest"
  shows "search_results q (events st) = Inr (map text_event (filter (query_matches q) xs))
         \<and> search_event st =
             (Inr (),
              st\<lparr>inputs := rest,
                 outputs := outputs st @ Get_Input ''Enter event title to search: ''
                   # (if filter (query_matches q) xs = []
                      then [Display_Error ''No events found matching the query'']
                      else [Display_Message ''Search results'',
                            Display_Events_List
                              (map text_event (filter (query_matches q) xs))])\<rparr>)"
  using assms
  by (simp add: search_event_def and_then_def get_input_Cons search_results_text_events
      display_def)

theorem search_event_exact_witness:
  "events (example_state\<lparr>inputs := [''work'']\<rparr>) = map text_event example_rows
   \<and> inputs (example_state\<lparr>inputs := [''work'']\<rparr>) = [''work'']
   \<and> filter (query_matches ''work'') example_rows = [example_rows ! 0, example_rows ! 2]
   \<and> outputs (snd (search_event (example_state\<lparr>inputs := [''work'']\<rparr>))) =
       [Get_Input ''Enter event title to search: '', Display_Message ''Search results'',
        Display_Events_List (map text_event [example_rows ! 0, example_rows ! 2])]"
proof -
  have h1: "events (example_state\<lparr>inputs := [''work'']\<rparr>) = map text_event example_rows"
    by (simp add: example_state_def)
  have h2: "inputs (example_state\<lparr>inputs := [''work'']\<rparr>) = [''work'']"
    by simp
  have f: "filter (query_matches ''work'') example_rows = [example_rows ! 0, example_rows ! 2]"
    by (simp add: example_rows_def query_matches_def sublist_Cons_right prefix_Cons)
  have o: "outputs example_state = []"
    by (simp add: example_state_def)
  from search_event_exact[OF h1 h2] h1 h2 f o show ?thesis by simp
qed

subsection \<open>Editing and deleting\<close>




lemma edit_event_steps:
  assumes "inputs st = t # nt # bad @ good # s # rest"
    and "list_all (\<lambda>x. isl (strptime x)) bad"
    and "strptime good = Inr dt"
    and "first_index (\<lambda>e. title e = PStr t) (events st) = Some i"
  shows "edit_event st =
           save_events
             (st\<lparr>inputs := rest,
                 events := (events st)[i := new_event nt dt s],
                 outputs := outputs st
                   @ [Get_Input ''Enter event title to edit: '', Get_Input ''Enter new event title: '']
                   @ retries ''Enter new event date and time (YYYY-MM-DD HH:MM): '' bad
                   @ [Get_Input ''Enter new event date and time (YYYY-MM-DD HH:MM): '',
                      Get_Input ''Enter new tags separated by commas: '',
                      Display_Message ''Event edited successfully. Updated details:'',
                      Display_Event_Details (new_event nt dt s)]\<rparr>)"
proof -
  let ?p = "''Enter new event date and time (YYYY-MM-DD HH:MM): ''"
  let ?st2 = "st\<lparr>inputs := bad @ good # s # rest,
                  outputs := outputs st @ [Get_Input ''Enter event title to edit: '',
                                           Get_Input ''Enter new event title: '']\<rparr>"
  let ?st3 = "?st2\<lparr>inputs := s # rest, outputs := outputs ?st2 @ retries ?p bad @ [Get_Input ?p]\<rparr>"
  have 2: "read_date_time ?p ?st2 = (Inr dt, ?st3)"
    using assms(2,3) by (intro read_date_time_accepts) simp_all
  show ?thesis
    unfolding edit_event_def
    using assms(1,4)
    by (simp add: and_then_def get_input_Cons 2 new_event_def[symmetric] set_fields_def
        display_def Let_def)
qed


lemma delete_event_steps:
  assumes "inputs st = t # rest"
    and "first_index (\<lambda>e. title e = PStr t) (events st) = Some i"
  shows "delete_event st =
           save_events
             (st\<lparr>inputs := rest,
                 events := take i (events st) @ drop (Suc i) (events st),
                 outputs := outputs st @ [Get_Input ''Enter event title to delete: '',
                              Display_Message ''Event deleted successfully.'']\<rparr>)"
  using assms
  by (simp add: delete_event_def and_then_def get_input_Cons remove_at_def display_def)


lemma strptime_examples:
  "isl (strptime ''tomorrow'')"
  "strptime ''2099-01-04 11:00''
   = Inr \<lparr>year = 2099, month = 1, day = 4, hour = 11, minute = 0, second = 0, microsecond = 0\<rparr>"
  by (simp_all add: strptime_def regex_match_def re_m_def re_d_def re_H_def re_M_def
      digit_in_def digit_of_def digit_val_def is_space_def datetime_new_def valid_datetime_def
      days_in_month_def is_leap_def)





lemma strptime_unicode_space:
  "strptime (''2099-01-04'' @ CHR 0xA0 # CHR 0x85 # ''11:00'')
   = Inr \<lparr>year = 2099, month = 1, day = 4, hour = 11, minute = 0, second = 0, microsecond = 0\<rparr>"
  by (simp add: strptime_def regex_match_def re_m_def re_d_def re_H_def re_M_def
      digit_in_def digit_of_def digit_val_def is_space_def datetime_new_def valid_datetime_def
      days_in_month_def is_leap_def)




subsection \<open>Persistence after a change\<close>

lemma save_events_overwrites:
  "\<not> denied st (file_path st) \<Longrightarrow>
   files (snd (save_events (st\<lparr>files := (files st)(file_path st := c)\<rparr>))) (file_path st)
   = files (snd (save_events st)) (file_path st)"
  by (simp add: save_events_def Let_def split: option.splits)

lemma save_events_other_files:
  "p \<noteq> file_path st \<Longrightarrow> files (snd (save_events st)) p = files st p"
  by (simp add: save_events_def Let_def split: option.splits)

lemma add_event_result:
  assumes "inputs st = t # bad @ good # s # rest"
    and "list_all (\<lambda>x. isl (strptime x)) bad"
    and "strptime good = Inr dt"
    and "\<not> denied st (file_path st)"
    and "store_document (events st @ [new_event t dt s]) = Some doc"
  shows "add_event st =
           (Inr (),
            st\<lparr>events := events st @ [new_event t dt s],
               files := (files st)(file_path st \<mapsto> Document doc),
               inputs := rest,
               outputs := outputs st @ [Get_Input ''Enter event title: '']
                 @ retries ''Enter event date and time (YYYY-MM-DD HH:MM): '' bad
                 @ [Get_Input ''Enter event date and time (YYYY-MM-DD HH:MM): '',
                    Get_Input ''Enter tags separated by commas: '',
                    Display_Message ''Event added successfully.'']\<rparr>)"
  using assms(4,5)
  by (simp add: add_event_def handle_error_def add_event_body_steps[OF assms(1-3)]
      and_then_def save_events_ok display_def)

lemma add_event_file_holds:
  assumes "inputs st = t # bad @ good # s # rest"
    and "list_all (\<lambda>x. isl (strptime x)) bad"
    and "strptime good = Inr dt"
    and "\<not> denied st (file_path st)"
    and "events st @ [new_event t dt s] = map text_event rows"
    and "list_all fits_format rows"
  shows "fst (add_event st) = Inr ()"
    and "events (snd (add_event st)) = map text_event rows"
    and "file_holds rows (snd (add_event st))"
proof -
  have "store_document (events st @ [new_event t dt s]) = Some (JArray (map event_json rows))"
    unfolding assms(5) by (rule store_document_text_events[OF assms(6)])
  note r = add_event_result[OF assms(1-4) this]
  show "fst (add_event st) = Inr ()" "events (snd (add_event st)) = map text_event rows"
    "file_holds rows (snd (add_event st))"
    by (simp_all add: r file_holds_def assms(5))
qed

text \<open>
  C9. The tags that \<open>add_event\<close> stores, and that \<open>edit_event\<close> writes into the event, are
  the line typed split at its commas: the list is never empty (the empty line gives the
  one empty tag), joining the parts with commas gives the line back, so nothing is
  trimmed, and no part holds a comma.
\<close>

theorem stored_tags_are_split:
  "str_split CHR '','' s \<noteq> []
   \<and> str_split CHR '','' [] = [[]]
   \<and> str_join '','' (str_split CHR '','' s) = s
   \<and> list_all (\<lambda>p. CHR '','' \<notin> set p) (str_split CHR '','' s)
   \<and> (inputs st = t # bad @ good # s # rest
        \<and> list_all (\<lambda>x. isl (strptime x)) bad \<and> strptime good = Inr dt \<longrightarrow>
          events (snd (add_event st)) =
            events st @ [\<lparr>title = PStr t, date_time = dt,
                           tags = PList (map PStr (str_split CHR '','' s))\<rparr>])
   \<and> (inputs st = t # nt # bad @ good # s # rest
        \<and> list_all (\<lambda>x. isl (strptime x)) bad \<and> strptime good = Inr dt
        \<and> first_index (\<lambda>e. title e = PStr t) (events st) = Some i \<longrightarrow>
          events (snd (edit_event st)) =
            (events st)[i := \<lparr>title = PStr nt, date_time = dt,
                               tags = PList (map PStr (str_split CHR '','' s))\<rparr>])"
proof (intro conjI impI; (elim conjE)?)
  show "str_split CHR '','' s \<noteq> []" by simp
  show "str_split CHR '','' [] = [[]]" by simp
  show "str_join '','' (str_split CHR '','' s) = s"
    using str_join_str_split[of "CHR '',''" s] by simp
  show "list_all (\<lambda>p. CHR '','' \<notin> set p) (str_split CHR '','' s)"
    by (rule str_split_no_separator)
next
  assume "inputs st = t # bad @ good # s # rest" "list_all (\<lambda>x. isl (strptime x)) bad"
    "strptime good = Inr dt"
  then show "events (snd (add_event st)) =
            events st @ [\<lparr>title = PStr t, date_time = dt,
                           tags = PList (map PStr (str_split CHR '','' s))\<rparr>]"
    by (simp add: add_event_events new_event_def)
next
  assume a: "inputs st = t # nt # bad @ good # s # rest" "list_all (\<lambda>x. isl (strptime x)) bad"
    "strptime good = Inr dt" "first_index (\<lambda>e. title e = PStr t) (events st) = Some i"
  show "events (snd (edit_event st)) =
            (events st)[i := \<lparr>title = PStr nt, date_time = dt,
                               tags = PList (map PStr (str_split CHR '','' s))\<rparr>]"
    by (simp add: edit_event_steps[OF a] save_events_frame new_event_def)
qed

theorem stored_tags_are_split_witness:
  "str_split CHR '','' ''food, out'' = [''food'', '' out'']
   \<and> str_join '','' [''food'', '' out''] = ''food, out''
   \<and> events (snd (add_event (example_state\<lparr>inputs := example_add_inputs\<rparr>))) =
       events example_state
         @ [\<lparr>title = PStr ''Solo'',
             date_time = \<lparr>year = 2099, month = 1, day = 4, hour = 11, minute = 0, second = 0,
                           microsecond = 0\<rparr>,
             tags = PList [PStr '''']\<rparr>]
   \<and> events (snd (edit_event (example_state\<lparr>inputs := example_edit_inputs\<rparr>))) =
       (events example_state)
         [1 := \<lparr>title = PStr ''Brunch'',
                date_time = \<lparr>year = 2099, month = 1, day = 4, hour = 11, minute = 0,
                              second = 0, microsecond = 0\<rparr>,
                tags = PList [PStr ''food'', PStr '' out'']\<rparr>]"
proof -
  let ?dt = "\<lparr>year = 2099, month = 1, day = 4, hour = 11, minute = 0, second = 0,
               microsecond = 0\<rparr>"
  let ?a = "example_state\<lparr>inputs := example_add_inputs\<rparr>"
  let ?e = "example_state\<lparr>inputs := example_edit_inputs\<rparr>"
  have a1: "inputs ?a = ''Solo'' # [] @ ''2099-01-04 11:00'' # '''' # []"
    by (simp add: example_add_inputs_def)
  have e1: "inputs ?e = ''Lunch'' # ''Brunch'' # [''tomorrow''] @ ''2099-01-04 11:00''
              # ''food, out'' # []"
    by (simp add: example_edit_inputs_def)
  have b: "list_all (\<lambda>x. isl (strptime x)) []" "list_all (\<lambda>x. isl (strptime x)) [''tomorrow'']"
    by (simp_all add: strptime_examples)
  have g: "strptime ''2099-01-04 11:00'' = Inr ?dt"
    by (rule strptime_examples)
  have f: "first_index (\<lambda>e. title e = PStr ''Lunch'') (events ?e) = Some 1"
    by (simp add: example_state_def example_rows_def)
  have ev: "events ?a = events example_state" "events ?e = events example_state"
    by simp_all
  from stored_tags_are_split[of "''food, out''" ?e "''Lunch''" "[''tomorrow'']"
      "''2099-01-04 11:00''" "[]" ?dt "''Brunch''" 1]
    stored_tags_are_split[of "''''" ?a "''Solo''" "[]" "''2099-01-04 11:00''" "[]" ?dt]
    a1 e1 b g f ev
  show ?thesis by simp
qed

lemma example_fresh_state_facts:
  "events example_fresh_state = []"
  "\<not> denied example_fresh_state p"
  "file_path example_fresh_state = ''events.json''"
  "outputs example_fresh_state = []"
  "files example_fresh_state p = None"
  by (simp_all add: example_fresh_state_def example_state_def)

text \<open>
  C8. A change that succeeds does not always leave the store in the file in the fixed
  shape. \<open>add_event\<close> on the empty store, with the date typed as
  \<^verbatim>\<open>0999-01-01 00:00\<close>, returns normally, reports success and rewrites the file; the
  date it writes is \<^verbatim>\<open>999-01-01 00:00\<close>, so the file does not hold the event in the
  fixed format, and \<open>load_events\<close> raises \<^verbatim>\<open>ValueError\<close> on it. From the year 1000
  on the file holds the list after the change (\<open>add_event_file_holds\<close>), and
  \<open>save_events\<close> writes it whatever the file held before (\<open>save_events_overwrites\<close>).
\<close>

theorem add_event_writes_short_year:
  "inputs (example_fresh_state\<lparr>inputs := example_old_inputs\<rparr>)
     = [''Old'', ''0999-01-01 00:00'', ''x'']
   \<and> events (example_fresh_state\<lparr>inputs := example_old_inputs\<rparr>) = []
   \<and> fst (add_event (example_fresh_state\<lparr>inputs := example_old_inputs\<rparr>)) = Inr ()
   \<and> last (outputs (snd (add_event (example_fresh_state\<lparr>inputs := example_old_inputs\<rparr>))))
       = Display_Message ''Event added successfully.''
   \<and> events (snd (add_event (example_fresh_state\<lparr>inputs := example_old_inputs\<rparr>)))
       = [text_event example_old_row]
   \<and> files (snd (add_event (example_fresh_state\<lparr>inputs := example_old_inputs\<rparr>)))
        ''events.json''
       = Some (Document (JArray [example_old_json]))
   \<and> \<not> file_holds [example_old_row]
         (snd (add_event (example_fresh_state\<lparr>inputs := example_old_inputs\<rparr>)))
   \<and> load_events
        ((snd (add_event (example_fresh_state\<lparr>inputs := example_old_inputs\<rparr>)))\<lparr>events := []\<rparr>)
       = Inl ValueError"
proof -
  let ?a = "example_fresh_state\<lparr>inputs := example_old_inputs\<rparr>"
  have a1: "inputs ?a = ''Old'' # [] @ ''0999-01-01 00:00'' # ''x'' # []"
    by (simp add: example_old_inputs_def)
  have b: "list_all (\<lambda>x. isl (strptime x)) []"
    by simp
  have g: "strptime ''0999-01-01 00:00'' = Inr example_old_date"
    by (rule example_old_facts)
  have n: "new_event ''Old'' example_old_date ''x'' = text_event example_old_row"
    by (simp add: new_event_def example_old_row_def)
  have nd: "\<not> denied ?a (file_path ?a)"
    by (simp add: example_fresh_state_facts)
  have d: "store_document (events ?a @ [new_event ''Old'' example_old_date ''x''])
           = Some (JArray [example_old_json])"
    unfolding n using store_document_old_row[of "[]"] by (simp add: example_fresh_state_facts)
  note r = add_event_result[OF a1 b g nd d]
  have c1: "inputs ?a = [''Old'', ''0999-01-01 00:00'', ''x'']"
    and c2: "events ?a = []"
    by (simp_all add: example_old_inputs_def example_fresh_state_facts)
  have c3: "fst (add_event ?a) = Inr ()"
    and c4: "last (outputs (snd (add_event ?a))) = Display_Message ''Event added successfully.''"
    by (simp_all add: r)
  have c5: "events (snd (add_event ?a)) = [text_event example_old_row]"
    unfolding r n by (simp add: example_fresh_state_facts)
  have c6: "files (snd (add_event ?a)) ''events.json''
            = Some (Document (JArray [example_old_json]))"
    by (simp add: r example_fresh_state_facts)
  have c7: "\<not> file_holds [example_old_row] (snd (add_event ?a))"
    using old_json_differs by (simp add: r example_fresh_state_facts file_holds_def)
  have c8: "load_events ((snd (add_event ?a))\<lparr>events := []\<rparr>) = Inl ValueError"
    by (rule load_old_file[where js = "[]"]) (simp_all add: r example_fresh_state_facts)
  show ?thesis
    by (intro conjI c1 c2 c3 c4 c5 c6 c7 c8)
qed

subsection \<open>The operations that only read\<close>

lemma search_event_frame:
  "events (snd (search_event st)) = events st \<and> files (snd (search_event st)) = files st
   \<and> file_path (snd (search_event st)) = file_path st"
  by (auto simp: search_event_def and_then_def get_input_def display_def
      split: list.splits sum.splits)

lemma show_upcoming_events_frame:
  "events (snd (show_upcoming_events st)) = events st
   \<and> files (snd (show_upcoming_events st)) = files st
   \<and> file_path (snd (show_upcoming_events st)) = file_path st"
  by (simp add: show_upcoming_events_def show_upcoming_events_body_def handle_error_def
      and_then_def datetime_now_def select_upcoming_def display_def)

lemma show_all_events_frame:
  "events (snd (show_all_events st)) = events st
   \<and> files (snd (show_all_events st)) = files st
   \<and> file_path (snd (show_all_events st)) = file_path st"
  by (simp add: show_all_events_def show_all_events_body_def handle_error_def display_def)

text \<open>
  C10. \<open>search_event\<close>, \<open>show_upcoming_events\<close> and \<open>show_all_events\<close> change neither the
  list of events in memory nor any file, in every state and for every input.
\<close>

theorem read_only_operations_frame:
  "events (snd (search_event st)) = events st
   \<and> files (snd (search_event st)) = files st
   \<and> events (snd (show_upcoming_events st)) = events st
   \<and> files (snd (show_upcoming_events st)) = files st
   \<and> events (snd (show_all_events st)) = events st
   \<and> files (snd (show_all_events st)) = files st"
  using search_event_frame[of st] show_upcoming_events_frame[of st] show_all_events_frame[of st]
  by simp






subsection \<open>Loading\<close>














subsection \<open>Dates of decoded objects\<close>

text \<open>
  In what \<open>decode\<close> returns, a dictionary with the key \<^verbatim>\<open>date_time\<close> holds a datetime
  there: the hook has replaced the text. So \<open>Event_kwargs\<close> never meets another value
  under that key when it is given the elements of a decoded array.
\<close>

lemma event_decoder_date_time:
  assumes "event_decoder obj = Inr (PDict kvs)" and "map_of kvs ''date_time'' = Some v"
  shows "\<exists>dt. v = PDatetime dt"
  using assms
  by (auto simp: event_decoder_def update_conv' split: option.splits sum.splits)

lemma decode_date_time:
  assumes "decode j = Inr (PDict kvs)" and "map_of kvs ''date_time'' = Some v"
  shows "\<exists>dt. v = PDatetime dt"
proof (cases j)
  case (JObject ms)
  with assms show ?thesis
    by (auto split: sum.splits dest: event_decoder_date_time)
qed (use assms in \<open>auto split: sum.splits\<close>)

lemma decode_list_date_time:
  assumes "decode_list js = Inr vs" and "PDict kvs \<in> set vs"
    and "map_of kvs ''date_time'' = Some v"
  shows "\<exists>dt. v = PDatetime dt"
  using assms
proof (induction js arbitrary: vs)
  case Nil
  then show ?case by simp
next
  case (Cons j js)
  then show ?case
    by (auto split: sum.splits dest: decode_date_time)
qed

subsection \<open>The error wrapper\<close>

lemma wrapped_operations_return:
  "fst (add_event st) = Inr ()"
  "fst (show_upcoming_events st) = Inr ()"
  "fst (show_all_events st) = Inr ()"
  by (auto simp: add_event_def show_upcoming_events_def show_all_events_def handle_error_def
      split: prod.splits sum.splits)

text \<open>
  C7. The error wrapper stands on \<open>add_event\<close>, \<open>show_upcoming_events\<close> and
  \<open>show_all_events\<close>; \<open>search_event\<close>, \<open>edit_event\<close> and \<open>delete_event\<close> are defined
  without it. So an exception raised in one of these three leaves the method and nothing
  reports it: with a file that cannot be written, \<open>delete_event\<close> and \<open>edit_event\<close> raise
  \<^verbatim>\<open>PermissionError\<close> after they have changed the list in memory and told the view of
  their success; with a stored title that is a number, \<open>search_event\<close> raises
  \<^verbatim>\<open>TypeError\<close>. In the same state \<open>add_event\<close> returns normally and the wrapper reports
  the error.
\<close>

theorem unwrapped_operations_raise:
  "fst (delete_event (example_denied_state\<lparr>inputs := [''Lunch'']\<rparr>)) = Inl PermissionError
   \<and> outputs (snd (delete_event (example_denied_state\<lparr>inputs := [''Lunch'']\<rparr>)))
       = [Get_Input ''Enter event title to delete: '',
          Display_Message ''Event deleted successfully.'']
   \<and> fst (edit_event (example_denied_state\<lparr>inputs := example_edit_inputs\<rparr>))
       = Inl PermissionError
   \<and> list_all (\<lambda>c. c \<noteq> Report_Error PermissionError)
        (outputs (snd (edit_event (example_denied_state\<lparr>inputs := example_edit_inputs\<rparr>))))
   \<and> load_events example_malformed_state
       = Inr [\<lparr>title = PNumber (PyInt 5),
               date_time = \<lparr>year = 2099, month = 1, day = 4, hour = 11, minute = 0,
                             second = 0, microsecond = 0\<rparr>,
               tags = PList []\<rparr>]
   \<and> fst (search_event
            ((projr (EventManager_init example_malformed_state))\<lparr>inputs := [''x'']\<rparr>))
       = Inl TypeError
   \<and> fst (add_event (example_denied_state\<lparr>inputs := example_add_inputs\<rparr>)) = Inr ()
   \<and> last (outputs (snd (add_event (example_denied_state\<lparr>inputs := example_add_inputs\<rparr>))))
       = Report_Error PermissionError"
proof -
  let ?dt = "\<lparr>year = 2099, month = 1, day = 4, hour = 11, minute = 0, second = 0,
               microsecond = 0\<rparr>"
  let ?d = "example_denied_state\<lparr>inputs := [''Lunch'']\<rparr>"
  let ?e = "example_denied_state\<lparr>inputs := example_edit_inputs\<rparr>"
  let ?a = "example_denied_state\<lparr>inputs := example_add_inputs\<rparr>"
  have g: "strptime ''2099-01-04 11:00'' = Inr ?dt"
    by (rule strptime_examples)
  have b: "list_all (\<lambda>x. isl (strptime x)) [''tomorrow'']" "list_all (\<lambda>x. isl (strptime x)) []"
    by (simp_all add: strptime_examples)
  have dn: "denied example_denied_state (file_path example_denied_state)"
    by (simp add: example_denied_state_def example_state_def)
  \<comment> \<open>delete\<close>
  have d1: "inputs ?d = ''Lunch'' # []" by simp
  have fd: "first_index (\<lambda>e. title e = PStr ''Lunch'') (events ?d) = Some 1"
    by (simp add: example_denied_facts example_rows_def)
  have rd: "delete_event ?d = (Inl PermissionError,
      ?d\<lparr>inputs := [],
         events := take 1 (events ?d) @ drop (Suc 1) (events ?d),
         outputs := outputs ?d @ [Get_Input ''Enter event title to delete: '',
                      Display_Message ''Event deleted successfully.'']\<rparr>)"
    unfolding delete_event_steps[OF d1 fd]
    by (rule save_events_denied) (simp add: dn)
  \<comment> \<open>edit\<close>
  have e1: "inputs ?e = ''Lunch'' # ''Brunch'' # [''tomorrow''] @ ''2099-01-04 11:00''
              # ''food, out'' # []"
    by (simp add: example_edit_inputs_def)
  have fe: "first_index (\<lambda>e. title e = PStr ''Lunch'') (events ?e) = Some 1"
    by (simp add: example_denied_facts example_rows_def)
  have re: "edit_event ?e = (Inl PermissionError,
      ?e\<lparr>inputs := [],
         events := (events ?e)[1 := new_event ''Brunch'' ?dt ''food, out''],
         outputs := outputs ?e
           @ [Get_Input ''Enter event title to edit: '', Get_Input ''Enter new event title: '']
           @ retries ''Enter new event date and time (YYYY-MM-DD HH:MM): '' [''tomorrow'']
           @ [Get_Input ''Enter new event date and time (YYYY-MM-DD HH:MM): '',
              Get_Input ''Enter new tags separated by commas: '',
              Display_Message ''Event edited successfully. Updated details:'',
              Display_Event_Details (new_event ''Brunch'' ?dt ''food, out'')]\<rparr>)"
    unfolding edit_event_steps[OF e1 b(1) g fe]
    by (rule save_events_denied) (simp add: dn)
  \<comment> \<open>a file with a number as title\<close>
  have lm: "load_events example_malformed_state
            = Inr [\<lparr>title = PNumber (PyInt 5), date_time = ?dt, tags = PList []\<rparr>]"
    using g
    by (simp add: load_events_def read_events_def open_read_def json_load_def
        example_malformed_state_def example_malformed_file_def example_state_def
        dict_of_pairs_def event_decoder_def Event_kwargs_def Event_def)
  have sm: "fst (search_event
              ((projr (EventManager_init example_malformed_state))\<lparr>inputs := [''x'']\<rparr>))
            = Inl TypeError"
    by (simp add: EventManager_init_def lm search_event_def and_then_def get_input_def
        event_matches_def)
  \<comment> \<open>add\<close>
  have a1: "inputs ?a = ''Solo'' # [] @ ''2099-01-04 11:00'' # '''' # []"
    by (simp add: example_add_inputs_def)
  have ra: "add_event ?a = (Inr (),
      ?a\<lparr>inputs := [],
         outputs := outputs ?a @ [Get_Input ''Enter event title: '']
           @ retries ''Enter event date and time (YYYY-MM-DD HH:MM): '' []
           @ [Get_Input ''Enter event date and time (YYYY-MM-DD HH:MM): '',
              Get_Input ''Enter tags separated by commas: '', Report_Error PermissionError],
         events := events ?a @ [new_event ''Solo'' ?dt '''']\<rparr>)"
    by (simp add: add_event_def handle_error_def add_event_body_steps[OF a1 b(2) g]
        and_then_def save_events_def dn)
  show ?thesis
    by (simp add: rd re lm sm ra example_denied_facts retries_def date_time_prompt_message_def)
qed

end
